theory Spec2Isabelle
  imports Complex_Main
begin

section \<open>PersonaSync: the AI coach client service (services/ai_coach_api.ts)\<close>

text \<open>
  A shallow embedding of \<^verbatim>\<open>src/frontend/services/ai_coach_api.ts\<close>. Every
  \<^verbatim>\<open>async\<close> function is a state-passing function over the network
  (\<open>world\<close>): it returns what its promise settles to (\<open>Returned\<close> for a fulfilled
  promise, \<open>Thrown\<close> for a rejected one) together with the network after the call.
\<close>

subsection \<open>JavaScript values\<close>

text \<open>
  A JavaScript number is represented by the text that JavaScript prints for it
  (\<^verbatim>\<open>Number.prototype.toString\<close>: \<^verbatim>\<open>7\<close>, \<^verbatim>\<open>1.5\<close>,
  \<^verbatim>\<open>1e+21\<close>, \<^verbatim>\<open>NaN\<close>), so that no digit of a double is computed here.
  Zero, of either sign, prints as \<^verbatim>\<open>0\<close>.
\<close>

type_synonym js_number = string

text \<open>
  The values that occur in JSON texts. A JSON text is represented by the value it
  denotes; \<open>JObj\<close> lists the properties of the object (for a parsed text, each key
  once). Text is kept as UTF-8 bytes.
\<close>

datatype json =
    JNull
  | JBool bool
  | JNum js_number
  | JStr string
  | JArr "json list"
  | JObj "(string \<times> json) list"

text \<open>
  A JavaScript object under construction: its own properties in insertion order. A
  property may hold \<^verbatim>\<open>undefined\<close>, written \<open>None\<close>.
\<close>

type_synonym js_object = "(string \<times> json option) list"

text \<open>Assignment of one property: an existing key keeps its place, a new key goes last.\<close>

fun assign :: "(string \<times> 'v) list \<Rightarrow> string \<Rightarrow> 'v \<Rightarrow> (string \<times> 'v) list" where
  "assign [] k v = [(k, v)]"
| "assign ((k', v') # ps) k v = (if k' = k then (k, v) # ps else (k', v') # assign ps k v)"

text \<open>Object spread \<^verbatim>\<open>{...target, ...source}\<close>: every own property of the source is assigned.\<close>

fun spread :: "(string \<times> 'v) list \<Rightarrow> (string \<times> 'v) list \<Rightarrow> (string \<times> 'v) list" where
  "spread target [] = target"
| "spread target ((k, v) # ps) = spread (assign target k v) ps"

text \<open>
  \<^verbatim>\<open>JSON.stringify\<close> of an object: a property whose value is
  \<^verbatim>\<open>undefined\<close> is left out of the text.
\<close>

fun defined_properties :: "js_object \<Rightarrow> (string \<times> json) list" where
  "defined_properties [] = []"
| "defined_properties ((k, None) # ps) = defined_properties ps"
| "defined_properties ((k, Some v) # ps) = (k, v) # defined_properties ps"

definition JSON_stringify :: "js_object \<Rightarrow> json" where
  "JSON_stringify obj = JObj (defined_properties obj)"

text \<open>
  A number as a property value under \<^verbatim>\<open>JSON.stringify\<close>: a number that is
  not finite is written as \<^verbatim>\<open>null\<close>.
\<close>

definition number_value :: "js_number \<Rightarrow> json" where
  "number_value n =
     (if n = ''NaN'' \<or> n = ''Infinity'' \<or> n = ''-Infinity'' then JNull else JNum n)"

text \<open>Property lookup on a parsed JSON object; \<open>None\<close> is \<^verbatim>\<open>undefined\<close>.\<close>

definition field :: "json \<Rightarrow> string \<Rightarrow> json option" where
  "field v k = (case v of JObj ps \<Rightarrow> map_of ps k | _ \<Rightarrow> None)"

text \<open>Truthiness, as \<^verbatim>\<open>||\<close> tests it.\<close>

fun truthy :: "json \<Rightarrow> bool" where
  "truthy JNull = False"
| "truthy (JBool b) = b"
| "truthy (JNum n) = (n \<noteq> ''0'')"
| "truthy (JStr s) = (s \<noteq> [])"
| "truthy (JArr xs) = True"
| "truthy (JObj ps) = True"

text \<open>
  Decimal digits of a status code, as a template literal prints it (a status code is an
  integer of at most three digits, which JavaScript prints exactly).
\<close>

definition digit_char :: "nat \<Rightarrow> char" where
  "digit_char d = ''0123456789'' ! d"

fun decimal :: "nat \<Rightarrow> string" where
  "decimal n = (if 10 \<le> n then decimal (n div 10) else []) @ [digit_char (n mod 10)]"

fun join :: "string \<Rightarrow> string list \<Rightarrow> string" where
  "join sep [] = []"
| "join sep [s] = s"
| "join sep (s # t # ss) = s @ sep @ join sep (t # ss)"

text \<open>
  \<^verbatim>\<open>ToString(v)\<close>, the conversion that a template literal and the
  \<^verbatim>\<open>Error\<close> constructor apply; \<open>None\<close> when it throws a
  \<^verbatim>\<open>TypeError\<close>. An array prints its elements joined by commas
  (\<^verbatim>\<open>null\<close> as the empty text). A parsed object has no callable property of
  its own, so it prints through \<^verbatim>\<open>Object.prototype.toString\<close> as
  \<^verbatim>\<open>[object Object]\<close>, unless it has an own key \<^verbatim>\<open>toString\<close>: that
  value is not callable, \<^verbatim>\<open>valueOf\<close> gives no primitive either, and the
  conversion throws.
\<close>

fun all_some :: "'a option list \<Rightarrow> 'a list option" where
  "all_some [] = Some []"
| "all_some (None # xs) = None"
| "all_some (Some x # xs) = (case all_some xs of None \<Rightarrow> None | Some ys \<Rightarrow> Some (x # ys))"

fun js_String :: "json \<Rightarrow> string option" where
  "js_String JNull = Some ''null''"
| "js_String (JBool b) = Some (if b then ''true'' else ''false'')"
| "js_String (JNum n) = Some n"
| "js_String (JStr s) = Some s"
| "js_String (JArr xs) =
     (case all_some (map (\<lambda>x. if x = JNull then Some [] else js_String x) xs) of
        None \<Rightarrow> None
      | Some texts \<Rightarrow> Some (join '','' texts))"
| "js_String (JObj ps) =
     (if ''toString'' \<in> set (map fst ps) then None else Some ''[object Object]'')"

subsection \<open>Turkish letters of the messages, as UTF-8\<close>

definition c_cedilla :: string where "c_cedilla = [CHR 0xC3, CHR 0xA7]"
definition u_umlaut :: string where "u_umlaut = [CHR 0xC3, CHR 0xBC]"
definition s_cedilla :: string where "s_cedilla = [CHR 0xC5, CHR 0x9F]"
definition g_breve :: string where "g_breve = [CHR 0xC4, CHR 0x9F]"
definition dotless_i :: string where "dotless_i = [CHR 0xC4, CHR 0xB1]"
definition dotted_I :: string where "dotted_I = [CHR 0xC4, CHR 0xB0]"

subsection \<open>Error classes\<close>

datatype error_class =
    Cls_AICoachError
  | Cls_AICoachAuthError
  | Cls_AICoachRateLimitError
  | Cls_AICoachUnavailableError

text \<open>
  An instance of \<^verbatim>\<open>AICoachError\<close> or of one of its subclasses. \<open>userMessage\<close>
  holds whatever value the constructor was given: for a 400 it is the \<^verbatim>\<open>detail\<close>
  of the response body, which is typed \<^verbatim>\<open>any\<close>.
\<close>

record coach_error =
  cls :: error_class
  name :: string
  message :: string
  statusCode :: nat
  userMessage :: json

text \<open>
  What a promise of this module can reject with: an \<^verbatim>\<open>AICoachError\<close>, the
  \<^verbatim>\<open>SyntaxError\<close> of \<^verbatim>\<open>response.json()\<close> on a body that is not
  JSON, or the \<^verbatim>\<open>TypeError\<close> of a conversion to a string.
\<close>

datatype thrown = CoachError coach_error | SyntaxError | TypeError

datatype 'a outcome = Returned 'a | Thrown thrown

text \<open>
  \<^verbatim>\<open>new AICoachError(message, statusCode, userMessage)\<close>: the call
  \<^verbatim>\<open>super(message)\<close> converts the message to a string, which can throw.
\<close>

definition AICoachError :: "json \<Rightarrow> nat \<Rightarrow> json \<Rightarrow> coach_error outcome" where
  "AICoachError msg code userMsg =
     (case js_String msg of
        None \<Rightarrow> Thrown TypeError
      | Some text \<Rightarrow>
          Returned \<lparr>cls = Cls_AICoachError, name = ''AICoachError'', message = text,
                    statusCode = code, userMessage = userMsg\<rparr>)"

text \<open>
  \<^verbatim>\<open>throw new AICoachError(...)\<close>: the instance is thrown, or the error of its
  construction.
\<close>

fun throw :: "coach_error outcome \<Rightarrow> thrown" where
  "throw (Returned e) = CoachError e"
| "throw (Thrown t) = t"

text \<open>The subclasses pass string literals to \<^verbatim>\<open>super\<close> and set the name.\<close>

definition AICoachAuthError :: coach_error where
  "AICoachAuthError =
     \<lparr>cls = Cls_AICoachAuthError, name = ''AICoachAuthError'',
      message = ''Token ge'' @ c_cedilla @ ''ersiz veya s'' @ u_umlaut @ ''resi dolmu'' @ s_cedilla,
      statusCode = 401,
      userMessage = JStr (''Oturumunuz sona erdi. L'' @ u_umlaut @ ''tfen tekrar giri'' @ s_cedilla
                          @ '' yap'' @ dotless_i @ ''n.'')\<rparr>"

definition AICoachRateLimitError :: coach_error where
  "AICoachRateLimitError =
     \<lparr>cls = Cls_AICoachRateLimitError, name = ''AICoachRateLimitError'',
      message = ''AI ko'' @ c_cedilla @ '' rate limit'',
      statusCode = 429,
      userMessage = JStr (''AI ko'' @ c_cedilla @ '' '' @ s_cedilla @ ''u an yo'' @ g_breve
                          @ ''un. Birka'' @ c_cedilla @ '' saniye sonra tekrar deneyin.'')\<rparr>"

definition AICoachUnavailableError :: coach_error where
  "AICoachUnavailableError =
     \<lparr>cls = Cls_AICoachUnavailableError, name = ''AICoachUnavailableError'',
      message = ''AI ko'' @ c_cedilla @ '' servisi kullan'' @ dotless_i @ ''lam'' @ dotless_i
                @ ''yor'',
      statusCode = 503,
      userMessage = JStr (''AI ko'' @ c_cedilla @ '' '' @ s_cedilla @ ''u an kullan'' @ dotless_i
                          @ ''lam'' @ dotless_i @ ''yor. Daha sonra tekrar deneyin.'')\<rparr>"

text \<open>\<^verbatim>\<open>error instanceof AICoachAuthError\<close>: no class extends \<^verbatim>\<open>AICoachAuthError\<close>.\<close>

fun isAuthError :: "thrown \<Rightarrow> bool" where
  "isAuthError (CoachError e) = (cls e = Cls_AICoachAuthError)"
| "isAuthError SyntaxError = False"
| "isAuthError TypeError = False"

subsection \<open>The network\<close>

text \<open>
  The argument of \<^verbatim>\<open>fetch\<close>: the URL and the members of
  \<^verbatim>\<open>RequestInit\<close> this module sets. The body is the JSON text, represented
  by the value it denotes.
\<close>

record request_init =
  http_method :: "string option"
  headers :: "(string \<times> string) list option"
  body :: "json option"

record request =
  url :: string
  init :: request_init

text \<open>
  A response: its status code and what \<^verbatim>\<open>response.json()\<close> gives (\<open>None\<close>
  when the body is not JSON and the call rejects). \<^verbatim>\<open>response.ok\<close> is the
  Fetch standard's: the status is in the range 200 to 299.
\<close>

record response =
  status :: nat
  json_body :: "json option"

definition ok :: "response \<Rightarrow> bool" where
  "ok r = (200 \<le> status r \<and> status r \<le> 299)"

text \<open>
  \<^verbatim>\<open>fetch\<close> either rejects (no response was received; the text is the
  thrown value as a template literal prints it) or resolves with a response.
\<close>

datatype fetch_result = Rejected string | Resolved response

text \<open>
  The network: how it answers the n-th request of a run (the environment, arbitrary),
  and the requests sent so far (the trace of outbound calls).
\<close>

record world =
  respond :: "nat \<Rightarrow> request \<Rightarrow> fetch_result"
  sent :: "request list"

definition fetch :: "request \<Rightarrow> world \<Rightarrow> fetch_result \<times> world" where
  "fetch rq w = (respond w (length (sent w)) rq, w\<lparr>sent := sent w @ [rq]\<rparr>)"

subsection \<open>aiCoachFetch (lines 249-325)\<close>

text \<open>
  Lines 286-292: \<^verbatim>\<open>errorDetail\<close> starts as the fallback text and is replaced by
  \<^verbatim>\<open>errorBody?.detail\<close> when the body parses and that value is truthy.
\<close>

definition errorDetail_of :: "response \<Rightarrow> json" where
  "errorDetail_of r =
     (let errorDetail = JStr ''Bilinmeyen hata'' in
      case json_body r of
        None \<Rightarrow> errorDetail
      | Some errorBody \<Rightarrow>
          (case field errorBody ''detail'' of
             None \<Rightarrow> errorDetail
           | Some d \<Rightarrow> if truthy d then d else errorDetail))"

text \<open>
  Lines 294-324: the \<^verbatim>\<open>switch\<close> on the status of a response that is not
  ok, and what it throws. The template literal of the last branch converts
  \<^verbatim>\<open>errorDetail\<close> to a string before the error is constructed.
\<close>

definition http_error :: "response \<Rightarrow> thrown" where
  "http_error r =
     (let errorDetail = errorDetail_of r in
      if status r = 401 then throw (Returned AICoachAuthError)
      else if status r = 429 then throw (Returned AICoachRateLimitError)
      else if status r = 400 then throw (AICoachError errorDetail 400 errorDetail)
      else if status r = 502 then
        throw (AICoachError (JStr (''Gemini parse hatas'' @ dotless_i)) 502
          (JStr (''AI ko'' @ c_cedilla @ '' ge'' @ c_cedilla @ ''ici bir sorun ya'' @ s_cedilla
                 @ dotless_i @ ''yor. L'' @ u_umlaut @ ''tfen tekrar deneyin.'')))
      else if status r = 503 then throw (Returned AICoachUnavailableError)
      else
        (case js_String errorDetail of
           None \<Rightarrow> TypeError
         | Some detail \<Rightarrow>
             throw (AICoachError (JStr (''HTTP '' @ decimal (status r) @ '': '' @ detail))
               (status r)
               (JStr (''Bir hata olu'' @ s_cedilla @ ''tu. L'' @ u_umlaut
                      @ ''tfen tekrar deneyin.'')))))"

text \<open>
  \<open>API_BASE_URL\<close> is the constant imported from \<^verbatim>\<open>./api\<close> (read from the
  environment there); it is a parameter. The one \<^verbatim>\<open>fetch\<close> call is lines
  263-270; its rejection is caught and rethrown as an \<^verbatim>\<open>AICoachError\<close> with
  status code 0 (lines 271-278). \<^verbatim>\<open>fetch\<close> rejects with an
  \<^verbatim>\<open>Error\<close>, which the template literal prints as the text that
  \<open>Rejected\<close> carries.
\<close>

definition aiCoachFetch ::
  "string \<Rightarrow> string \<Rightarrow> string \<Rightarrow> request_init \<Rightarrow> world \<Rightarrow> json outcome \<times> world" where
  "aiCoachFetch API_BASE_URL endpoint token options w =
     (let url = API_BASE_URL @ ''/api/ai'' @ endpoint;
          defaultHeaders =
            [(''Content-Type'', ''application/json''), (''Authorization'', ''Bearer '' @ token)];
          (result, w') =
            fetch \<lparr>url = url,
                   init = options\<lparr>headers :=
                     Some (spread defaultHeaders
                             (case headers options of None \<Rightarrow> [] | Some h \<Rightarrow> h))\<rparr>\<rparr> w
      in case result of
           Rejected networkError \<Rightarrow>
             (Thrown (throw
                (AICoachError (JStr (''Network hatas'' @ dotless_i @ '': '' @ networkError)) 0
                   (JStr (dotted_I @ ''nternet ba'' @ g_breve @ ''lant'' @ dotless_i @ ''n''
                          @ dotless_i @ ''z'' @ dotless_i @ '' kontrol edin.'')))), w')
         | Resolved response \<Rightarrow>
             if ok response then
               (case json_body response of
                  None \<Rightarrow> (Thrown SyntaxError, w')
                | Some v \<Rightarrow> (Returned v, w'))
             else (Thrown (http_error response), w'))"

subsection \<open>Request types\<close>

datatype MotivationTrigger =
    low_performance
  | high_cancel_rate
  | user_request
  | streak_broken
  | goal_achieved

datatype AdviceType = daily | weekly | alternative

fun MotivationTrigger_text :: "MotivationTrigger \<Rightarrow> string" where
  "MotivationTrigger_text low_performance = ''low_performance''"
| "MotivationTrigger_text high_cancel_rate = ''high_cancel_rate''"
| "MotivationTrigger_text user_request = ''user_request''"
| "MotivationTrigger_text streak_broken = ''streak_broken''"
| "MotivationTrigger_text goal_achieved = ''goal_achieved''"

fun AdviceType_text :: "AdviceType \<Rightarrow> string" where
  "AdviceType_text daily = ''daily''"
| "AdviceType_text weekly = ''weekly''"
| "AdviceType_text alternative = ''alternative''"

text \<open>
  An optional property \<^verbatim>\<open>p?: T\<close> of a caller's object: not a property of the
  object, a property holding \<^verbatim>\<open>undefined\<close> (as in
  \<^verbatim>\<open>{ trigger, user_note: note }\<close> of the coach screen when \<^verbatim>\<open>note\<close>
  is not given), or a property holding a value.
\<close>

datatype 'a optional = Absent | Undefined | Present 'a

fun property :: "string \<Rightarrow> ('a \<Rightarrow> json) \<Rightarrow> 'a optional \<Rightarrow> js_object" where
  "property k enc Absent = []"
| "property k enc Undefined = [(k, None)]"
| "property k enc (Present v) = [(k, Some (enc v))]"

record DailyAdviceRequest =
  extra_context :: "string optional"

record WeeklyReportRequest =
  days :: "js_number optional"

record MotivationRequest =
  trigger :: "MotivationTrigger optional"
  user_note :: "string optional"

record FeedbackRequest =
  technique :: string
  liked :: bool
  rejection_reason :: "string optional"
  advice_type :: "AdviceType optional"

text \<open>The own properties of a request object, in the order of the interface.\<close>

definition DailyAdviceRequest_object :: "DailyAdviceRequest \<Rightarrow> js_object" where
  "DailyAdviceRequest_object r = property ''extra_context'' JStr (extra_context r)"

definition WeeklyReportRequest_object :: "WeeklyReportRequest \<Rightarrow> js_object" where
  "WeeklyReportRequest_object r = property ''days'' number_value (days r)"

definition MotivationRequest_object :: "MotivationRequest \<Rightarrow> js_object" where
  "MotivationRequest_object r =
     property ''trigger'' (\<lambda>t. JStr (MotivationTrigger_text t)) (trigger r)
     @ property ''user_note'' JStr (user_note r)"

definition FeedbackRequest_object :: "FeedbackRequest \<Rightarrow> js_object" where
  "FeedbackRequest_object r =
     [(''technique'', Some (JStr (technique r))), (''liked'', Some (JBool (liked r)))]
     @ property ''rejection_reason'' JStr (rejection_reason r)
     @ property ''advice_type'' (\<lambda>t. JStr (AdviceType_text t)) (advice_type r)"

subsection \<open>The API functions (lines 351-506)\<close>

text \<open>
  A parameter with a default (\<^verbatim>\<open>request: DailyAdviceRequest = {}\<close>) is an
  \<open>option\<close>: \<open>None\<close> when the caller passes nothing.
\<close>

definition POST :: "json \<Rightarrow> request_init" where
  "POST b = \<lparr>http_method = Some ''POST'', headers = None, body = Some b\<rparr>"

definition getDailyAdvice ::
  "string \<Rightarrow> string \<Rightarrow> DailyAdviceRequest option \<Rightarrow> world \<Rightarrow> json outcome \<times> world" where
  "getDailyAdvice API_BASE_URL token request w =
     (let request = (case request of None \<Rightarrow> [] | Some r \<Rightarrow> DailyAdviceRequest_object r)
      in aiCoachFetch API_BASE_URL ''/daily-advice'' token (POST (JSON_stringify request)) w)"

definition getWeeklyReport ::
  "string \<Rightarrow> string \<Rightarrow> WeeklyReportRequest option \<Rightarrow> world \<Rightarrow> json outcome \<times> world" where
  "getWeeklyReport API_BASE_URL token request w =
     (let request = (case request of None \<Rightarrow> [(''days'', Some (number_value ''7''))]
                     | Some r \<Rightarrow> WeeklyReportRequest_object r)
      in aiCoachFetch API_BASE_URL ''/weekly-report'' token (POST (JSON_stringify request)) w)"

definition getMotivation ::
  "string \<Rightarrow> string \<Rightarrow> MotivationRequest option \<Rightarrow> world \<Rightarrow> json outcome \<times> world" where
  "getMotivation API_BASE_URL token request w =
     (let request = (case request of None \<Rightarrow> [(''trigger'', Some (JStr ''user_request''))]
                     | Some r \<Rightarrow> MotivationRequest_object r)
      in aiCoachFetch API_BASE_URL ''/motivation'' token (POST (JSON_stringify request)) w)"

definition sendFeedback ::
  "string \<Rightarrow> string \<Rightarrow> FeedbackRequest \<Rightarrow> world \<Rightarrow> json outcome \<times> world" where
  "sendFeedback API_BASE_URL token request w =
     aiCoachFetch API_BASE_URL ''/feedback'' token
       (POST (JSON_stringify
          (spread [(''advice_type'', Some (JStr ''daily''))] (FeedbackRequest_object request)))) w"

definition getSessionSummary ::
  "string \<Rightarrow> string \<Rightarrow> js_number \<Rightarrow> world \<Rightarrow> json outcome \<times> world" where
  "getSessionSummary API_BASE_URL token sessionId w =
     aiCoachFetch API_BASE_URL ''/session-summary'' token
       (POST (JSON_stringify [(''session_id'', Some (number_value sessionId))])) w"

text \<open>
  \<^verbatim>\<open>checkAIHealth\<close> (lines 492-506). \<open>now\<close> is
  \<^verbatim>\<open>new Date().toISOString()\<close>. The \<^verbatim>\<open>try\<close> block returns the promise
  of \<^verbatim>\<open>response.json()\<close> without awaiting it, so the \<^verbatim>\<open>catch\<close>
  sees a rejection of \<^verbatim>\<open>fetch\<close> only: a rejection of
  \<^verbatim>\<open>response.json()\<close> settles the promise of \<^verbatim>\<open>checkAIHealth\<close>
  itself.
\<close>

definition checkAIHealth :: "string \<Rightarrow> string \<Rightarrow> world \<Rightarrow> json outcome \<times> world" where
  "checkAIHealth API_BASE_URL now w =
     (let url = API_BASE_URL @ ''/api/ai/health'';
          (result, w') =
            fetch \<lparr>url = url,
                   init = \<lparr>http_method = Some ''GET'', headers = None, body = None\<rparr>\<rparr> w
      in case result of
           Resolved response \<Rightarrow>
             (case json_body response of
                None \<Rightarrow> (Thrown SyntaxError, w')
              | Some v \<Rightarrow> (Returned v, w'))
         | Rejected e \<Rightarrow>
             (Returned (JObj [(''status'', JStr ''unhealthy''),
                              (''model'', JNull),
                              (''error'', JStr (''Servise ula'' @ s_cedilla @ dotless_i @ ''lam''
                                               @ dotless_i @ ''yor'')),
                              (''checked_at'', JStr now)]), w'))"

subsection \<open>Helpers for the user interface (lines 524-579)\<close>

text \<open>
  \<^verbatim>\<open>handleAuthError\<close> of the coach screen (the caller of the API functions):
  on an authentication error it shows the alert whose button logs the user out, and
  returns true; on any other error it does nothing and returns false.
\<close>

datatype ui_effect = SessionExpiredAlert_with_logout

definition handleAuthError :: "thrown \<Rightarrow> ui_effect list \<times> bool" where
  "handleAuthError e =
     (if isAuthError e then ([SessionExpiredAlert_with_logout], True) else ([], False))"

subsection \<open>Numbers: rounding to binary64\<close>

text \<open>
  The arithmetic of \<^verbatim>\<open>detectMotivationTrigger\<close> is that of IEEE 754 binary64:
  every sum, quotient and decimal literal is the double nearest to the exact value, ties
  going to the even significand. Values are rationals; only values that are not negative
  occur.
\<close>

text \<open>The number of binary digits of a positive integer.\<close>

function bit_length :: "int \<Rightarrow> nat" where
  "bit_length n = (if n \<le> 0 then 0 else Suc (bit_length (n div 2)))"
  by pat_completeness auto
termination
  by (relation "measure nat") auto

declare bit_length.simps [simp del]

text \<open>The nearest integer, a tie going to the even one.\<close>

definition round_half_even :: "rat \<Rightarrow> int" where
  "round_half_even q =
     (let n = \<lfloor>q\<rfloor>; f = q - of_int n
      in if f < 1 / 2 then n else if 1 / 2 < f then n + 1 else if even n then n else n + 1)"

text \<open>
  The spacing of the doubles around a positive \<open>x\<close>: \<open>2 ^ (e - 52)\<close> where
  \<open>2 ^ e \<le> x < 2 ^ (e + 1)\<close>, and \<open>2 ^ -1074\<close> in the subnormal range
  (\<open>e < -1022\<close>). For \<open>x \<ge> 1\<close> the exponent is read from the integer part of \<open>x\<close>,
  for \<open>x < 1\<close> from that of \<open>1 / x\<close>.
\<close>

definition ulp :: "rat \<Rightarrow> rat" where
  "ulp x =
     (if 1 \<le> x then 2 ^ (bit_length \<lfloor>x\<rfloor> - 1) / 2 ^ 52
      else 1 / 2 ^ (min (bit_length (\<lceil>1 / x\<rceil> - 1)) 1022 + 52))"

text \<open>The double nearest to \<open>x \<ge> 0\<close>, before overflow is looked at.\<close>

definition round_binary64 :: "rat \<Rightarrow> rat" where
  "round_binary64 x = (if x = 0 then 0 else of_int (round_half_even (x / ulp x)) * ulp x)"

text \<open>
  The result of an operation that can overflow: a value that rounds to \<open>2 ^ 1024\<close> or
  more is \<^verbatim>\<open>Infinity\<close>.
\<close>

datatype double = Finite rat | Infinity

definition to_double :: "rat \<Rightarrow> double" where
  "to_double x = (let r = round_binary64 x in if 2 ^ 1024 \<le> r then Infinity else Finite r)"

text \<open>
  \<^verbatim>\<open>detectMotivationTrigger\<close> (lines 559-579). The arguments are natural
  numbers that are doubles (every natural number up to \<open>2 ^ 53\<close> is one). The sum can
  overflow; \<^verbatim>\<open>x / Infinity\<close> is 0. A quotient of a double by a number that is
  at least 1 cannot overflow. The literals \<^verbatim>\<open>0.5\<close>, \<^verbatim>\<open>1.0\<close> and
  \<^verbatim>\<open>0.3\<close> are the doubles nearest to 5/10, 1 and 3/10.
\<close>

definition detectMotivationTrigger :: "nat \<Rightarrow> nat \<Rightarrow> nat \<Rightarrow> nat \<Rightarrow> MotivationTrigger option" where
  "detectMotivationTrigger cancelledToday completedToday minutesToday dailyTargetMinutes =
     (let total = to_double (of_nat cancelledToday + of_nat completedToday);
          cancelRate =
            (case total of
               Infinity \<Rightarrow> 0
             | Finite t \<Rightarrow> if t > 0 then round_binary64 (of_nat cancelledToday / t) else 0);
          progressRate =
            (if dailyTargetMinutes > 0
             then round_binary64 (of_nat minutesToday / of_nat dailyTargetMinutes) else 0)
      in if cancelRate > round_binary64 (5 / 10)
            \<and> (case total of Infinity \<Rightarrow> True | Finite t \<Rightarrow> t \<ge> 2)
         then Some high_cancel_rate
         else if progressRate \<ge> round_binary64 1 then Some goal_achieved
         else if progressRate < round_binary64 (3 / 10) \<and> minutesToday > 0
         then Some low_performance
         else None)"

text \<open>
  The classification as section 4.5 of the specification words it, over the natural
  numbers: the rates are exact quotients, 0.5 is 5/10 and 0.3 is 3/10.
\<close>

definition spec_trigger :: "nat \<Rightarrow> nat \<Rightarrow> nat \<Rightarrow> nat \<Rightarrow> MotivationTrigger option" where
  "spec_trigger cancelled completed minutesToday dailyTarget =
     (let total = cancelled + completed;
          cancelRate = (if total \<ge> 1 then rat_of_nat cancelled / rat_of_nat total else 0);
          progressRate =
            (if dailyTarget > 0 then rat_of_nat minutesToday / rat_of_nat dailyTarget else 0)
      in if cancelRate > 5 / 10 \<and> total \<ge> 2 then Some high_cancel_rate
         else if progressRate \<ge> 1 then Some goal_achieved
         else if progressRate < 3 / 10 \<and> minutesToday > 0 then Some low_performance
         else None)"

text \<open>
  What one invocation of an API function does to the network: exactly one request is
  added to the trace, and the result is settled by the answer to that request alone: a
  rejection of \<^verbatim>\<open>fetch\<close> or a status outside 200-299 is thrown at once (as
  an \<^verbatim>\<open>AICoachError\<close> with the status code, or as the \<^verbatim>\<open>TypeError\<close>
  of its construction), a status in 200-299 gives the parsed body.
\<close>

definition single_attempt :: "world \<Rightarrow> json outcome \<times> world \<Rightarrow> bool" where
  "single_attempt w res =
     (\<exists>rq. snd res = w\<lparr>sent := sent w @ [rq]\<rparr>
        \<and> (case respond w (length (sent w)) rq of
             Rejected err \<Rightarrow> (\<exists>e. fst res = Thrown (CoachError e) \<and> statusCode e = 0)
           | Resolved r \<Rightarrow>
               if ok r then fst res = (case json_body r of None \<Rightarrow> Thrown SyntaxError | Some v \<Rightarrow> Returned v)
               else fst res = Thrown TypeError
                    \<or> (\<exists>e. fst res = Thrown (CoachError e) \<and> statusCode e = status r)))"


section \<open>The coaching backend, modelled from the specification\<close>

text \<open>
  Modelled from the spec: the failure taxonomy of section 7. The backend (the FastAPI
  service behind \<^verbatim>\<open>/api/ai\<close>) is not among the source files.
\<close>

datatype failure =
    InvalidRequest
  | DataUnavailable
  | Unavailable
  | RateLimited
  | SchemaViolation
  | UpstreamError

text \<open>Modelled from the spec: the artifact types of section 3.\<close>

datatype artifact =
    DailyAdviceArtifact
  | WeeklyReportArtifact
  | MotivationArtifact
  | AlternativeTechniqueArtifact
  | SessionSummaryArtifact

text \<open>
  Modelled from the spec: the model tiers of section 4.3, the fast tier for daily advice,
  motivation and session summary, the heavier tier for the weekly report. The
  specification names no tier for the alternative technique; the fast one is taken.
\<close>

datatype tier = FastTier | HeavyTier

text \<open>Modelled from the spec: the tier of each artifact type (section 4.3).\<close>

fun tier_of :: "artifact \<Rightarrow> tier" where
  "tier_of WeeklyReportArtifact = HeavyTier"
| "tier_of a = FastTier"

text \<open>
  Modelled from the spec: what the external generative model can answer to one request
  (section 4.3): a transport failure or timeout, a quota signal, a malformed or empty
  response, or raw text.
\<close>

datatype provider_reply = TransportFailure | QuotaSignal | MalformedOrEmpty | RawText string

text \<open>
  Modelled from the spec: the payload the Prompt Builder renders (section 4.2), a
  deterministic function of its inputs, kept as the record of these inputs. \<open>'c\<close> is
  the pair of UserContext and StatsSnapshot.
\<close>

record 'c prompt =
  artifact_tag :: artifact
  user_data :: 'c
  extra_text :: "string option"
  excluded_technique :: "string option"

text \<open>Modelled from the spec: the Prompt Builder (section 4.2).\<close>

definition build_prompt :: "artifact \<Rightarrow> 'c \<Rightarrow> string option \<Rightarrow> string option \<Rightarrow> 'c prompt" where
  "build_prompt a c extra excluded =
     \<lparr>artifact_tag = a, user_data = c, extra_text = extra, excluded_technique = excluded\<rparr>"

text \<open>
  Modelled from the spec: the external collaborators of section 1 that the pipeline
  reads: the statistics and profile provider (\<open>None\<close> when it cannot produce a result),
  the generative model, and the step of the Parser that locates and decodes the
  structured payload embedded in the raw text (\<open>None\<close> when there is none). The last
  field is the case folding under which the Parser compares technique names: the
  specification says "case-insensitive compare" and names no folding, so every folding
  is admitted.
\<close>

record 'c collaborators =
  statistics_provider :: "nat \<Rightarrow> int \<Rightarrow> 'c option"
  generative_model :: "'c prompt \<Rightarrow> tier \<Rightarrow> provider_reply"
  embedded_payload :: "string \<Rightarrow> json option"
  case_folding :: "string \<Rightarrow> string"

text \<open>
  Modelled from the spec: a feedback record as section 3 lists its fields.
\<close>

record FeedbackRecord =
  record_id :: nat
  record_user :: nat
  record_technique :: string
  record_liked :: bool
  record_rejection_reason :: "string option"
  record_advice_type :: AdviceType
  record_created_at :: string

text \<open>
  Modelled from the spec: the state of the backend that the claims observe: the
  requests the Gateway has sent to the model, and the persisted feedback records.
\<close>

record 'c backend =
  gateway_calls :: "'c prompt list"
  feedback_records :: "FeedbackRecord list"

text \<open>
  Modelled from the spec: the Context Assembler (section 4.1). The window is an integer
  from 3 to 30; an out-of-range window is rejected with InvalidRequest.
\<close>

definition assemble_context :: "'c collaborators \<Rightarrow> nat \<Rightarrow> int \<Rightarrow> failure + 'c" where
  "assemble_context env user window =
     (if window < 3 \<or> 30 < window then Inl InvalidRequest
      else case statistics_provider env user window of
             None \<Rightarrow> Inl DataUnavailable
           | Some c \<Rightarrow> Inr c)"

text \<open>
  Modelled from the spec: the Generative Model Gateway (section 4.3): one outbound
  call, no retry, and the mapping of its failures.
\<close>

definition gateway_send ::
  "'c collaborators \<Rightarrow> 'c prompt \<Rightarrow> tier \<Rightarrow> 'c backend \<Rightarrow> (failure + string) \<times> 'c backend" where
  "gateway_send env p t s =
     ((case generative_model env p t of
         TransportFailure \<Rightarrow> Inl Unavailable
       | QuotaSignal \<Rightarrow> Inl RateLimited
       | MalformedOrEmpty \<Rightarrow> Inl UpstreamError
       | RawText raw \<Rightarrow> Inr raw),
      s\<lparr>gateway_calls := gateway_calls s @ [p]\<rparr>)"

text \<open>
  Modelled from the spec: the Response Parser (section 4.4): locate the payload,
  validate it against the schema of the artifact, fail with SchemaViolation otherwise.
\<close>

definition parse_artifact :: "'c collaborators \<Rightarrow> (json \<Rightarrow> 'a option) \<Rightarrow> string \<Rightarrow> failure + 'a" where
  "parse_artifact env validate raw =
     (case embedded_payload env raw of
        None \<Rightarrow> Inl SchemaViolation
      | Some payload \<Rightarrow>
          (case validate payload of
             None \<Rightarrow> Inl SchemaViolation
           | Some a \<Rightarrow> Inr a))"

text \<open>Modelled from the spec: a required field that is a string (section 4.4).\<close>

definition text_field :: "json \<Rightarrow> string \<Rightarrow> string option" where
  "text_field p k = (case field p k of Some (JStr s) \<Rightarrow> Some s | _ \<Rightarrow> None)"

text \<open>Modelled from the spec: a list all of whose items are strings.\<close>

fun texts :: "json list \<Rightarrow> string list option" where
  "texts [] = Some []"
| "texts (JStr s # xs) = (case texts xs of None \<Rightarrow> None | Some ss \<Rightarrow> Some (s # ss))"
| "texts (x # xs) = None"

text \<open>Modelled from the spec: a required field that is a list of strings (section 4.4).\<close>

definition text_list_field :: "json \<Rightarrow> string \<Rightarrow> string list option" where
  "text_list_field p k = (case field p k of Some (JArr xs) \<Rightarrow> texts xs | _ \<Rightarrow> None)"

text \<open>
  Modelled from the spec: the case-insensitive comparison of technique names (section
  4.4): two names are the same when the folding maps them to the same text.
\<close>

definition same_ignoring_case :: "(string \<Rightarrow> string) \<Rightarrow> string \<Rightarrow> string \<Rightarrow> bool" where
  "same_ignoring_case casefold a b = (casefold a = casefold b)"

text \<open>
  One folding, for the examples: the letters A to Z become a to z, every other byte is
  kept.
\<close>

definition lower_char :: "char \<Rightarrow> char" where
  "lower_char c =
     (case map_of (zip ''ABCDEFGHIJKLMNOPQRSTUVWXYZ'' ''abcdefghijklmnopqrstuvwxyz'') c of
        Some l \<Rightarrow> l
      | None \<Rightarrow> c)"

text \<open>
  The interface \<^verbatim>\<open>AlternativeTechnique\<close> of the client (lines 150-161); its field
  \<^verbatim>\<open>technique\<close> is \<open>alt_technique\<close> here.
\<close>

record AlternativeTechnique =
  alt_technique :: string
  why_different :: string
  why_suits_you :: string
  steps :: "string list"
  try_suggestion :: string

text \<open>
  Modelled from the spec: the validation rule of AlternativeTechnique (section 4.4):
  all five fields present, at least one step, and a technique that differs from the
  excluded technique name under case-insensitive comparison (with the folding given).
\<close>

definition validate_alternative ::
  "(string \<Rightarrow> string) \<Rightarrow> string \<Rightarrow> json \<Rightarrow> AlternativeTechnique option" where
  "validate_alternative casefold excluded p =
     (case (text_field p ''technique'', text_field p ''why_different'',
            text_field p ''why_suits_you'', text_list_field p ''steps'',
            text_field p ''try_suggestion'') of
        (Some t, Some wd, Some ws, Some st, Some ts) \<Rightarrow>
          if st \<noteq> [] \<and> \<not> same_ignoring_case casefold t excluded
          then Some \<lparr>alt_technique = t, why_different = wd, why_suits_you = ws, steps = st,
                     try_suggestion = ts\<rparr>
          else None
      | _ \<Rightarrow> None)"

text \<open>
  Modelled from the spec: the validation rule of WeeklyReport (section 4.4): six
  non-empty strings and two non-empty lists of strings. The validated payload is the
  artifact.
\<close>

definition validate_weekly_report :: "json \<Rightarrow> json option" where
  "validate_weekly_report p =
     (if list_all (\<lambda>k. case text_field p k of Some s \<Rightarrow> s \<noteq> [] | None \<Rightarrow> False)
           [''week_summary'', ''highlight'', ''next_week_focus'', ''technique_recommendation'',
            ''technique_reason'', ''motivational_closing'']
         \<and> list_all (\<lambda>k. case text_list_field p k of Some ss \<Rightarrow> ss \<noteq> [] | None \<Rightarrow> False)
           [''strengths'', ''improvements'']
      then Some p else None)"

text \<open>
  Modelled from the spec: the pipeline of the Coaching Orchestrator (section 4.5):
  Context Assembler, Prompt Builder, Gateway, Parser, in this order, stopping at the
  first failure.
\<close>

definition generate ::
  "'c collaborators \<Rightarrow> artifact \<Rightarrow> nat \<Rightarrow> int \<Rightarrow> string option \<Rightarrow> string option
     \<Rightarrow> (json \<Rightarrow> 'a option) \<Rightarrow> 'c backend \<Rightarrow> (failure + 'a) \<times> 'c backend" where
  "generate env a user window extra excluded validate s =
     (case assemble_context env user window of
        Inl f \<Rightarrow> (Inl f, s)
      | Inr c \<Rightarrow>
          (case gateway_send env (build_prompt a c extra excluded) (tier_of a) s of
             (Inl f, s') \<Rightarrow> (Inl f, s')
           | (Inr raw, s') \<Rightarrow> (parse_artifact env validate raw, s')))"

text \<open>
  Modelled from the spec: the operation getWeeklyReport of the orchestrator (section
  4.5): days from 3 to 30, 7 when the request gives none.
\<close>

definition orchestrator_getWeeklyReport ::
  "'c collaborators \<Rightarrow> nat \<Rightarrow> int option \<Rightarrow> 'c backend \<Rightarrow> (failure + json) \<times> 'c backend" where
  "orchestrator_getWeeklyReport env user days_opt s =
     generate env WeeklyReportArtifact user (case days_opt of None \<Rightarrow> 7 | Some d \<Rightarrow> d)
       None None validate_weekly_report s"

text \<open>
  Modelled from the spec: the operation getAlternativeTechnique of the orchestrator
  (section 4.5), over the default window of 7 days; the rejected technique is excluded
  in the prompt and in the validation.
\<close>

definition orchestrator_getAlternativeTechnique ::
  "'c collaborators \<Rightarrow> nat \<Rightarrow> string \<Rightarrow> string option \<Rightarrow> 'c backend
     \<Rightarrow> (failure + AlternativeTechnique) \<times> 'c backend" where
  "orchestrator_getAlternativeTechnique env user rejected reason s =
     generate env AlternativeTechniqueArtifact user 7 reason (Some rejected)
       (validate_alternative (case_folding env) rejected) s"

text \<open>
  The interface \<^verbatim>\<open>FeedbackResponse\<close> of the client (lines 163-172); its fields
  \<^verbatim>\<open>message\<close> and \<^verbatim>\<open>alternative\<close> are \<open>confirmation\<close> and
  \<open>alternative_technique\<close> here.
\<close>

record FeedbackResponse =
  success :: bool
  confirmation :: string
  feedback_id :: nat
  alternative_technique :: "AlternativeTechnique option"

text \<open>
  Modelled from the spec: the Feedback Recorder (section 4.6). The record is persisted
  with an identity of its own; when the technique was disliked the orchestrator is asked
  for an alternative, and a failure of that call leaves the alternative empty. \<open>now\<close>
  is the creation time and \<open>msg\<close> the user-facing message.
\<close>

definition record_feedback ::
  "'c collaborators \<Rightarrow> string \<Rightarrow> string \<Rightarrow> nat \<Rightarrow> string \<Rightarrow> bool \<Rightarrow> string option \<Rightarrow> AdviceType
     \<Rightarrow> 'c backend \<Rightarrow> FeedbackResponse \<times> 'c backend" where
  "record_feedback env now msg user tech liked_it reason kind s =
     (let entry = \<lparr>record_id = Suc (length (feedback_records s)), record_user = user,
                   record_technique = tech, record_liked = liked_it,
                   record_rejection_reason = (if liked_it then None else reason),
                   record_advice_type = kind, record_created_at = now\<rparr>;
          s1 = s\<lparr>feedback_records := feedback_records s @ [entry]\<rparr>;
          (alt, s2) =
            (if liked_it then (None, s1)
             else case orchestrator_getAlternativeTechnique env user tech reason s1 of
                    (Inr a, s') \<Rightarrow> (Some a, s')
                  | (Inl f, s') \<Rightarrow> (None, s'))
      in (\<lparr>success = True, confirmation = msg, feedback_id = record_id entry,
           alternative_technique = alt\<rparr>, s2))"

section \<open>Properties of the client service\<close>

subsection \<open>Rounding to binary64\<close>

text \<open>
  The facts about the rounding that the classification needs: it does not cross a
  multiple of the spacing, it is exact where the value is such a multiple (every natural
  number below \<open>2 ^ 53\<close>), and above the subnormal range its relative error is at most
  \<open>2 ^ -53\<close>.
\<close>

lemma bit_length_bounds:
  "0 < n \<Longrightarrow> 2 ^ (bit_length n - 1) \<le> n \<and> n < 2 ^ bit_length n"
proof (induction n rule: bit_length.induct)
  case (1 n)
  show ?case
  proof (cases "n div 2 = 0")
    case True
    with "1.prems" have "n = 1" by linarith
    then show ?thesis by (simp add: bit_length.simps)
  next
    case False
    with "1.prems" have pos: "0 < n div 2" by linarith
    from "1.IH" "1.prems" pos
    have ih: "2 ^ (bit_length (n div 2) - 1) \<le> n div 2" "n div 2 < 2 ^ bit_length (n div 2)"
      by simp_all
    have b: "0 < bit_length (n div 2)" using pos by (simp add: bit_length.simps)
    then obtain j where j: "bit_length (n div 2) = Suc j" by (cases "bit_length (n div 2)") auto
    have bl: "bit_length n = Suc (Suc j)" using "1.prems" j by (simp add: bit_length.simps)
    from ih j have "2 ^ j \<le> n div 2" "n div 2 < 2 * 2 ^ j" by simp_all
    then have "2 * 2 ^ j \<le> n" "n < 2 * (2 * 2 ^ j)" by linarith+
    then show ?thesis by (simp add: bl)
  qed
qed

lemma bit_length_pos: "0 < n \<Longrightarrow> 0 < bit_length n"
  by (simp add: bit_length.simps)

lemma bit_length_le:
  assumes "0 < n" and "n < 2 ^ k"
  shows "bit_length n \<le> k"
proof (rule ccontr)
  assume "\<not> bit_length n \<le> k"
  then have "k \<le> bit_length n - 1" by simp
  then have "(2 :: int) ^ k \<le> 2 ^ (bit_length n - 1)" by (simp add: power_increasing)
  with bit_length_bounds [OF assms(1)] assms(2) show False by linarith
qed

lemma round_half_even_of_int [simp]: "round_half_even (of_int z) = z"
  by (simp add: round_half_even_def)

lemma round_half_even_error: "\<bar>of_int (round_half_even q) - q\<bar> \<le> 1 / 2"
proof -
  have "of_int \<lfloor>q\<rfloor> \<le> q" "q < of_int \<lfloor>q\<rfloor> + 1" by linarith+
  then show ?thesis
    by (auto simp: round_half_even_def Let_def abs_le_iff)
qed

lemma round_half_even_le:
  assumes "q \<le> of_int z"
  shows "round_half_even q \<le> z"
proof -
  have "\<lceil>q\<rceil> \<le> z" using assms by (simp add: ceiling_le)
  moreover have "round_half_even q \<le> \<lceil>q\<rceil>"
    by (auto simp: round_half_even_def Let_def) linarith+
  ultimately show ?thesis by simp
qed

lemma round_half_even_ge:
  assumes "of_int z \<le> q"
  shows "z \<le> round_half_even q"
proof -
  have "z \<le> \<lfloor>q\<rfloor>" using assms by (simp add: le_floor_iff)
  moreover have "\<lfloor>q\<rfloor> \<le> round_half_even q"
    by (auto simp: round_half_even_def Let_def)
  ultimately show ?thesis by simp
qed

lemma ulp_pos: "0 < ulp x"
  by (simp add: ulp_def)


lemma round_binary64_le:
  assumes "0 < x" and "x \<le> y" and "y / ulp x = of_int z"
  shows "round_binary64 x \<le> y"
proof -
  have "x / ulp x \<le> of_int z"
    using assms(2,3) ulp_pos [of x] by (metis divide_right_mono less_imp_le)
  then have "round_half_even (x / ulp x) \<le> z" by (rule round_half_even_le)
  then have "rat_of_int (round_half_even (x / ulp x)) \<le> rat_of_int z" by simp
  then have "rat_of_int (round_half_even (x / ulp x)) * ulp x \<le> rat_of_int z * ulp x"
    using ulp_pos [of x] by (simp add: mult_right_mono)
  moreover have "rat_of_int z * ulp x = y"
    using assms(3) ulp_pos [of x] by (simp add: field_simps)
  ultimately show ?thesis using assms(1) by (simp add: round_binary64_def)
qed

lemma round_binary64_ge:
  assumes "0 < x" and "y \<le> x" and "y / ulp x = of_int z"
  shows "y \<le> round_binary64 x"
proof -
  have "of_int z \<le> x / ulp x"
    using assms(2,3) ulp_pos [of x] by (metis divide_right_mono less_imp_le)
  then have "z \<le> round_half_even (x / ulp x)" by (rule round_half_even_ge)
  then have "rat_of_int z \<le> rat_of_int (round_half_even (x / ulp x))" by simp
  then have "rat_of_int z * ulp x \<le> rat_of_int (round_half_even (x / ulp x)) * ulp x"
    using ulp_pos [of x] by (simp add: mult_right_mono)
  moreover have "rat_of_int z * ulp x = y"
    using assms(3) ulp_pos [of x] by (simp add: field_simps)
  ultimately show ?thesis using assms(1) by (simp add: round_binary64_def)
qed

lemma round_binary64_exact:
  assumes "x / ulp x = of_int z"
  shows "round_binary64 x = x"
proof -
  have "round_half_even (x / ulp x) = z" using assms by simp
  then have "round_binary64 x = (if x = 0 then 0 else (x / ulp x) * ulp x)"
    using assms by (simp add: round_binary64_def)
  then show ?thesis using ulp_pos [of x] by simp
qed

lemma ulp_le:
  assumes "1 / 2 ^ 1022 \<le> x"
  shows "ulp x \<le> x / 2 ^ 52"
proof (cases "1 \<le> x")
  case True
  then have "0 < \<lfloor>x\<rfloor>" by simp
  from bit_length_bounds [OF this]
  have "(2 :: int) ^ (bit_length \<lfloor>x\<rfloor> - 1) \<le> \<lfloor>x\<rfloor>" by simp
  then have "rat_of_int (2 ^ (bit_length \<lfloor>x\<rfloor> - 1)) \<le> rat_of_int \<lfloor>x\<rfloor>"
    by (simp only: of_int_le_iff)
  also have "\<dots> \<le> x" by simp
  finally have "2 ^ (bit_length \<lfloor>x\<rfloor> - 1) \<le> x" by simp
  then show ?thesis using True by (simp add: ulp_def divide_right_mono)
next
  case False
  have xpos: "0 < x" using assms by (rule less_le_trans [rotated]) simp
  define N where "N = \<lceil>1 / x\<rceil> - 1"
  define L where "L = bit_length N"
  have "1 < 1 / x" using False xpos by simp
  then have Npos: "0 < N" unfolding N_def by linarith
  have "1 / x \<le> of_int (N + 1)" unfolding N_def by simp
  moreover have "N + 1 \<le> 2 ^ L" using bit_length_bounds [OF Npos] unfolding L_def by linarith
  then have "rat_of_int (N + 1) \<le> rat_of_int (2 ^ L)" by (simp only: of_int_le_iff)
  ultimately have "1 / x \<le> 2 ^ L" by simp
  then have low: "1 / 2 ^ L \<le> x" using xpos by (simp add: field_simps)
  have "1 / 2 ^ min L 1022 \<le> x"
  proof (cases "L \<le> 1022")
    case True
    then show ?thesis using low by (simp add: min_def)
  next
    case False
    then show ?thesis using assms by (simp add: min_def)
  qed
  then have "(1 / 2 ^ min L 1022) / 2 ^ 52 \<le> x / 2 ^ 52" by (simp add: divide_right_mono)
  then show ?thesis using False by (simp add: ulp_def N_def L_def power_add)
qed

lemma round_binary64_error:
  assumes "1 / 2 ^ 1022 \<le> x"
  shows "\<bar>round_binary64 x - x\<bar> \<le> x / 2 ^ 53"
proof -
  have xpos: "0 < x" using assms by (rule less_le_trans [rotated]) simp
  define q where "q = x / ulp x"
  have x: "x = q * ulp x" using ulp_pos [of x] by (simp add: q_def)
  have "round_binary64 x - x = (of_int (round_half_even q) - q) * ulp x"
    using xpos x by (simp add: round_binary64_def q_def algebra_simps)
  then have "\<bar>round_binary64 x - x\<bar> = \<bar>of_int (round_half_even q) - q\<bar> * ulp x"
    using ulp_pos [of x] by (simp add: abs_mult)
  also have "\<dots> \<le> (1 / 2) * ulp x"
    using round_half_even_error [of q] ulp_pos [of x] by (simp add: mult_right_mono)
  also have "\<dots> \<le> (1 / 2) * (x / 2 ^ 52)"
    using ulp_le [OF assms] by simp
  also have "\<dots> = x / 2 ^ 53" by simp
  finally show ?thesis .
qed

lemma inverse_ulp_ge_one:
  assumes "1 \<le> x" and "x < 2 ^ 53"
  shows "\<exists>j. 1 / ulp x = 2 ^ j"
proof -
  have pos: "0 < \<lfloor>x\<rfloor>" using assms(1) by simp
  have "\<lfloor>x\<rfloor> < 2 ^ 53" using assms(2) by (simp add: floor_less_iff)
  from bit_length_le [OF pos this] have le: "bit_length \<lfloor>x\<rfloor> - 1 \<le> 52" by simp
  have "1 / ulp x = (2 :: rat) ^ 52 / 2 ^ (bit_length \<lfloor>x\<rfloor> - 1)"
    using assms(1) by (simp add: ulp_def)
  also have "\<dots> = 2 ^ (52 - (bit_length \<lfloor>x\<rfloor> - 1))"
    using le by (simp add: power_diff)
  finally show ?thesis by blast
qed

lemma inverse_ulp_lt_one:
  assumes "x < 1"
  shows "1 / ulp x = 2 ^ (min (bit_length (\<lceil>1 / x\<rceil> - 1)) 1022 + 52)"
  using assms by (simp add: ulp_def)

lemma ulp_quarter_to_half:
  assumes "1 / 4 \<le> x" and "x < 1 / 2"
  shows "ulp x = 1 / 2 ^ 54"
proof -
  have xpos: "0 < x" using assms(1) by simp
  have "2 < 1 / x" "1 / x \<le> 4" using assms xpos by (simp_all add: field_simps)
  then have "2 < \<lceil>1 / x\<rceil>" "\<lceil>1 / x\<rceil> \<le> 4" by (simp_all add: less_ceiling_iff ceiling_le_iff)
  then have "\<lceil>1 / x\<rceil> - 1 = 2 \<or> \<lceil>1 / x\<rceil> - 1 = 3" by linarith
  moreover have "bit_length 2 = 2" "bit_length 3 = 2" by (simp_all add: bit_length.simps)
  ultimately have bl: "bit_length (\<lceil>1 / x\<rceil> - 1) = 2" by (elim disjE) simp_all
  have small: "(1 \<le> x) = False" using assms(2) by simp
  show ?thesis unfolding ulp_def by (simp only: small if_False bl) simp
qed

lemma round_binary64_nat:
  assumes "n < 2 ^ 53"
  shows "round_binary64 (rat_of_nat n) = rat_of_nat n"
proof (cases "n = 0")
  case True
  then show ?thesis by (simp add: round_binary64_def)
next
  case False
  then have "1 \<le> n" by simp
  then have "rat_of_nat 1 \<le> rat_of_nat n" by (simp only: of_nat_le_iff)
  then have one: "1 \<le> rat_of_nat n" by simp
  have "rat_of_nat n < rat_of_nat (2 ^ 53)" using assms by (simp only: of_nat_less_iff)
  then have "rat_of_nat n < 2 ^ 53" by simp
  from inverse_ulp_ge_one [OF one this] obtain j where j: "1 / ulp (rat_of_nat n) = 2 ^ j" ..
  have "rat_of_nat n / ulp (rat_of_nat n) = rat_of_nat n * (1 / ulp (rat_of_nat n))" by simp
  also have "\<dots> = rat_of_nat n * 2 ^ j" by (simp only: j)
  also have "\<dots> = rat_of_int (int n * 2 ^ j)" by simp
  finally show ?thesis by (rule round_binary64_exact)
qed

subsection \<open>detectMotivationTrigger\<close>

lemma cancelRate_gt_half:
  fixes c t :: nat
  assumes "0 < t"
  shows "(rat_of_nat c / rat_of_nat t > 5 / 10) = (t < 2 * c)"
proof -
  have "(rat_of_nat c / rat_of_nat t > 5 / 10) = (rat_of_nat t < rat_of_nat (2 * c))"
    using assms by (simp add: field_simps)
  then show ?thesis by (simp only: of_nat_less_iff)
qed

lemma progressRate_ge_one:
  fixes m d :: nat
  assumes "0 < d"
  shows "(rat_of_nat m / rat_of_nat d \<ge> 1) = (d \<le> m)"
  using assms by (simp add: field_simps)

lemma progressRate_lt_three_tenths:
  fixes m d :: nat
  assumes "0 < d"
  shows "(rat_of_nat m / rat_of_nat d < 3 / 10) = (10 * m < 3 * d)"
proof -
  have "(rat_of_nat m / rat_of_nat d < 3 / 10) = (rat_of_nat (10 * m) < rat_of_nat (3 * d))"
    using assms by (simp add: field_simps)
  then show ?thesis by (simp only: of_nat_less_iff)
qed

lemma round_binary64_half: "round_binary64 (1 / 2) = 1 / 2"
  by code_simp

lemma round_binary64_three_tenths:
  "round_binary64 (3 / 10) = 5404319552844595 / 2 ^ 54"
  by code_simp

lemma quotient_in_range:
  fixes m d :: nat
  assumes "0 < m" "0 < d" "m < 2 ^ 51" "d < 2 ^ 51"
  shows "1 / 2 ^ 1022 \<le> rat_of_nat m / rat_of_nat d \<and> rat_of_nat m / rat_of_nat d < 2 ^ 53"
proof -
  define M D where "M = rat_of_nat m" and "D = rat_of_nat d"
  have "rat_of_nat 1 \<le> rat_of_nat m" "rat_of_nat 1 \<le> rat_of_nat d"
    using assms(1,2) by (simp_all only: of_nat_le_iff)
  then have one: "1 \<le> M" "1 \<le> D" by (simp_all add: M_def D_def)
  have "rat_of_nat m < rat_of_nat (2 ^ 51)" "rat_of_nat d < rat_of_nat (2 ^ 51)"
    using assms(3,4) by (simp_all only: of_nat_less_iff)
  then have small: "M < 2 ^ 51" "D < 2 ^ 51" by (simp_all add: M_def D_def)
  have "1 / 2 ^ 51 \<le> M / D" using one small by (simp add: field_simps)
  moreover have "(1 :: rat) / 2 ^ 1022 \<le> 1 / 2 ^ 51" by simp
  ultimately have "1 / 2 ^ 1022 \<le> M / D" by (rule order_trans [rotated])
  moreover have "M / D < 2 ^ 53" using one small by (simp add: field_simps)
  ultimately show ?thesis by (simp add: M_def D_def)
qed

lemma round_binary64_le_half:
  assumes "0 \<le> x" and "x \<le> 1 / 2"
  shows "round_binary64 x \<le> 1 / 2"
proof (cases "x = 0")
  case True
  then show ?thesis by (simp add: round_binary64_def)
next
  case False
  with assms(1) have pos: "0 < x" by simp
  have "x < 1" using assms(2) by simp
  define j where "j = min (bit_length (\<lceil>1 / x\<rceil> - 1)) 1022 + 51"
  have j: "1 / ulp x = 2 ^ Suc j"
    unfolding j_def inverse_ulp_lt_one [OF \<open>x < 1\<close>] by simp
  have "(1 / 2) / ulp x = (1 / 2) * (1 / ulp x)" by simp
  also have "\<dots> = 2 ^ j" by (simp only: j) simp
  also have "\<dots> = rat_of_int (2 ^ j)" by simp
  finally show ?thesis by (rule round_binary64_le [OF pos assms(2)])
qed


lemma round_binary64_ge_half:
  assumes "1 / 2 \<le> x" and "x < 2 ^ 53"
  shows "1 / 2 \<le> round_binary64 x"
proof -
  have pos: "0 < x" using assms(1) by simp
  show ?thesis
  proof (cases "1 \<le> x")
    case True
    from inverse_ulp_ge_one [OF True assms(2)] obtain j where j: "1 / ulp x = 2 ^ j" ..
    have "1 / ulp x = rat_of_int (2 ^ j)" by (simp add: j)
    then have "1 \<le> round_binary64 x" by (rule round_binary64_ge [OF pos True])
    then show ?thesis by simp
  next
    case False
    then have lt: "x < 1" by simp
    define j where "j = min (bit_length (\<lceil>1 / x\<rceil> - 1)) 1022 + 51"
    have j: "1 / ulp x = 2 ^ Suc j"
      unfolding j_def inverse_ulp_lt_one [OF lt] by simp
    have "(1 / 2) / ulp x = (1 / 2) * (1 / ulp x)" by simp
    also have "\<dots> = 2 ^ j" by (simp only: j) simp
    also have "\<dots> = rat_of_int (2 ^ j)" by simp
    finally show ?thesis by (rule round_binary64_ge [OF pos assms(1)])
  qed
qed

lemma round_binary64_ge_one:
  assumes "1 \<le> x" and "x < 2 ^ 53"
  shows "1 \<le> round_binary64 x"
proof -
  have pos: "0 < x" using assms(1) by simp
  from inverse_ulp_ge_one [OF assms] obtain j where j: "1 / ulp x = 2 ^ j" ..
  have "1 / ulp x = rat_of_int (2 ^ j)" by (simp add: j)
  then show ?thesis by (rule round_binary64_ge [OF pos assms(1)])
qed

lemma round_binary64_ge_three_tenths:
  assumes "3 / 10 \<le> x" and "x < 2 ^ 53"
  shows "round_binary64 (3 / 10) \<le> round_binary64 x"
proof (cases "1 / 2 \<le> x")
  case True
  then have "1 / 2 \<le> round_binary64 x" using assms(2) by (rule round_binary64_ge_half)
  moreover have "round_binary64 (3 / 10) \<le> 1 / 2"
    unfolding round_binary64_three_tenths by simp
  ultimately show ?thesis by simp
next
  case False
  then have lt: "x < 1 / 2" by simp
  have pos: "0 < x" using assms(1) by simp
  have "1 / 4 \<le> x" using assms(1) by simp
  then have u: "ulp x = 1 / 2 ^ 54" using lt by (rule ulp_quarter_to_half)
  have le: "5404319552844595 / 2 ^ 54 \<le> x" using assms(1) by simp
  have "(5404319552844595 / 2 ^ 54) / ulp x = rat_of_int 5404319552844595"
    unfolding u by simp
  then have "5404319552844595 / 2 ^ 54 \<le> round_binary64 x"
    by (rule round_binary64_ge [OF pos le])
  then show ?thesis unfolding round_binary64_three_tenths .
qed

lemma rounded_gt_half:
  fixes c t :: nat
  assumes t: "0 < t" "t < 2 ^ 51" and c: "c < 2 ^ 51"
  shows "(round_binary64 (rat_of_nat c / rat_of_nat t) > 1 / 2)
         = (rat_of_nat c / rat_of_nat t > 1 / 2)"
proof
  assume gt: "round_binary64 (rat_of_nat c / rat_of_nat t) > 1 / 2"
  show "rat_of_nat c / rat_of_nat t > 1 / 2"
  proof (rule ccontr)
    assume "\<not> rat_of_nat c / rat_of_nat t > 1 / 2"
    then have "rat_of_nat c / rat_of_nat t \<le> 1 / 2" by simp
    moreover have "0 \<le> rat_of_nat c / rat_of_nat t" by simp
    ultimately have "round_binary64 (rat_of_nat c / rat_of_nat t) \<le> 1 / 2"
      by (rule round_binary64_le_half [rotated])
    with gt show False by simp
  qed
next
  define C T where "C = rat_of_nat c" and "T = rat_of_nat t"
  assume "rat_of_nat c / rat_of_nat t > 1 / 2"
  then have gt: "C / T > 1 / 2" by (simp add: C_def T_def)
  have Tpos: "0 < T" using t by (simp add: C_def T_def)
  have "t < 2 * c" using cancelRate_gt_half [OF t(1), of c] gt
    by (simp add: C_def T_def)
  then have "t + 1 \<le> 2 * c" by simp
  then have "rat_of_nat (t + 1) \<le> rat_of_nat (2 * c)" by (simp only: of_nat_le_iff)
  then have step: "T + 1 \<le> 2 * C" by (simp add: C_def T_def)
  have "rat_of_nat t < rat_of_nat (2 ^ 51)" using t by (simp only: of_nat_less_iff)
  then have Tsmall: "T < 2 ^ 51" by (simp add: T_def)
  have "(1 :: rat) / 2 ^ 1022 \<le> 1 / 2" by simp
  with gt have lo: "1 / 2 ^ 1022 \<le> C / T" by linarith
  from round_binary64_error [OF lo]
  have "C / T - (C / T) / 2 ^ 53 \<le> round_binary64 (C / T)"
    unfolding abs_diff_le_iff by (rule conjunct1)
  moreover have "1 / 2 < C / T - (C / T) / 2 ^ 53"
    using Tpos step Tsmall by (simp add: field_simps)
  ultimately show "round_binary64 (rat_of_nat c / rat_of_nat t) > 1 / 2"
    by (simp add: C_def T_def)
qed

lemma rounded_ge_one:
  fixes m d :: nat
  assumes d: "0 < d" "d < 2 ^ 51" and m: "m < 2 ^ 51"
  shows "(round_binary64 (rat_of_nat m / rat_of_nat d) \<ge> 1) = (rat_of_nat m / rat_of_nat d \<ge> 1)"
proof
  assume ge: "rat_of_nat m / rat_of_nat d \<ge> 1"
  then have "0 < m" using d by (cases "m = 0") simp_all
  from quotient_in_range [OF this d(1) m d(2)]
  have "rat_of_nat m / rat_of_nat d < 2 ^ 53" by simp
  with ge show "round_binary64 (rat_of_nat m / rat_of_nat d) \<ge> 1"
    by (rule round_binary64_ge_one)
next
  assume ge: "round_binary64 (rat_of_nat m / rat_of_nat d) \<ge> 1"
  show "rat_of_nat m / rat_of_nat d \<ge> 1"
  proof (rule ccontr)
    assume "\<not> rat_of_nat m / rat_of_nat d \<ge> 1"
    then have lt: "rat_of_nat m / rat_of_nat d < 1" by simp
    show False
    proof (cases "m = 0")
      case True
      with ge show False by (simp add: round_binary64_def)
    next
      case False
      define M D where "M = rat_of_nat m" and "D = rat_of_nat d"
      have Dpos: "0 < D" using d by (simp add: D_def)
      have "m < d" using lt d by (simp add: field_simps)
      then have "m + 1 \<le> d" by simp
      then have "rat_of_nat (m + 1) \<le> rat_of_nat d" by (simp only: of_nat_le_iff)
      then have step: "M + 1 \<le> D" by (simp add: M_def D_def)
      have "rat_of_nat d < rat_of_nat (2 ^ 51)" using d by (simp only: of_nat_less_iff)
      then have Dsmall: "D < 2 ^ 51" by (simp add: D_def)
      from quotient_in_range [of m d] False d m
      have "1 / 2 ^ 1022 \<le> M / D" by (simp add: M_def D_def)
      from round_binary64_error [OF this]
      have "round_binary64 (M / D) \<le> M / D + (M / D) / 2 ^ 53"
        unfolding abs_diff_le_iff by (rule conjunct2)
      moreover have "M / D + (M / D) / 2 ^ 53 < 1"
        using Dpos step Dsmall by (simp add: field_simps)
      ultimately have "round_binary64 (M / D) < 1" by simp
      with ge show False by (simp add: M_def D_def)
    qed
  qed
qed

lemma rounded_lt_three_tenths:
  fixes m d :: nat
  assumes d: "0 < d" "d < 2 ^ 50" and m: "m < 2 ^ 51"
  shows "(round_binary64 (rat_of_nat m / rat_of_nat d) < round_binary64 (3 / 10))
         = (rat_of_nat m / rat_of_nat d < 3 / 10)"
proof
  assume lt: "round_binary64 (rat_of_nat m / rat_of_nat d) < round_binary64 (3 / 10)"
  have d': "d < 2 ^ 51" using d(2) by simp
  show "rat_of_nat m / rat_of_nat d < 3 / 10"
  proof (rule ccontr)
    assume "\<not> rat_of_nat m / rat_of_nat d < 3 / 10"
    then have ge: "3 / 10 \<le> rat_of_nat m / rat_of_nat d" by simp
    then have "0 < m" using d by (cases "m = 0") simp_all
    from quotient_in_range [OF this d(1) m d']
    have "rat_of_nat m / rat_of_nat d < 2 ^ 53" by simp
    with ge have "round_binary64 (3 / 10) \<le> round_binary64 (rat_of_nat m / rat_of_nat d)"
      by (rule round_binary64_ge_three_tenths)
    with lt show False by simp
  qed
next
  have d': "d < 2 ^ 51" using d(2) by simp
  assume lt: "rat_of_nat m / rat_of_nat d < 3 / 10"
  show "round_binary64 (rat_of_nat m / rat_of_nat d) < round_binary64 (3 / 10)"
  proof (cases "m = 0")
    case True
    then show ?thesis unfolding round_binary64_three_tenths by (simp add: round_binary64_def)
  next
    case False
    define M D where "M = rat_of_nat m" and "D = rat_of_nat d"
    have Dpos: "0 < D" using d by (simp add: D_def)
    have "10 * m < 3 * d" using progressRate_lt_three_tenths [OF d(1), of m] lt by simp
    then have "10 * m + 1 \<le> 3 * d" by simp
    then have "rat_of_nat (10 * m + 1) \<le> rat_of_nat (3 * d)" by (simp only: of_nat_le_iff)
    then have step: "10 * M + 1 \<le> 3 * D" by (simp add: M_def D_def)
    have "rat_of_nat d < rat_of_nat (2 ^ 50)" using d by (simp only: of_nat_less_iff)
    then have Dsmall: "D < 2 ^ 50" by (simp add: D_def)
    from quotient_in_range [of m d] False d(1) d' m
    have "1 / 2 ^ 1022 \<le> M / D" by (simp add: M_def D_def)
    from round_binary64_error [OF this]
    have "round_binary64 (M / D) \<le> M / D + (M / D) / 2 ^ 53"
      unfolding abs_diff_le_iff by (rule conjunct2)
    moreover have "M / D + (M / D) / 2 ^ 53 < 5404319552844595 / 2 ^ 54"
      using Dpos step Dsmall by (simp add: field_simps)
    ultimately have "round_binary64 (M / D) < 5404319552844595 / 2 ^ 54"
      by (rule le_less_trans)
    then show ?thesis unfolding round_binary64_three_tenths by (simp add: M_def D_def)
  qed
qed


lemma to_double_small_sum:
  fixes c k :: nat
  assumes "c < 2 ^ 50" and "k < 2 ^ 50"
  shows "to_double (rat_of_nat c + rat_of_nat k) = Finite (rat_of_nat (c + k))"
proof -
  have "c + k < 2 ^ 53" using assms by simp
  then have r: "round_binary64 (rat_of_nat (c + k)) = rat_of_nat (c + k)"
    by (rule round_binary64_nat)
  have "rat_of_nat (c + k) < rat_of_nat (2 ^ 53)"
    using \<open>c + k < 2 ^ 53\<close> by (simp only: of_nat_less_iff)
  then have "rat_of_nat (c + k) < 2 ^ 53" by simp
  moreover have "(2 :: rat) ^ 53 \<le> 2 ^ 1024" by simp
  ultimately have "\<not> 2 ^ 1024 \<le> rat_of_nat (c + k)" by linarith
  then show ?thesis
    unfolding to_double_def Let_def of_nat_add [symmetric] r by simp
qed

lemma detectMotivationTrigger_small:
  assumes "c < 2 ^ 50" and "k < 2 ^ 50" and "m < 2 ^ 50" and "d < 2 ^ 50"
  shows "detectMotivationTrigger c k m d = spec_trigger c k m d"
proof -
  have sum_small: "c + k < 2 ^ 51" using assms(1,2) by simp
  have c': "c < 2 ^ 51" and m': "m < 2 ^ 51" using assms(1,3) by simp_all
  have total: "to_double (rat_of_nat c + rat_of_nat k) = Finite (rat_of_nat (c + k))"
    using assms(1,2) by (rule to_double_small_sum)
  have half: "round_binary64 (5 / 10) = 5 / 10" using round_binary64_half by simp
  have one: "round_binary64 1 = 1" using round_binary64_nat [of 1] by simp
  have high: "(round_binary64 (rat_of_nat c / rat_of_nat (c + k)) > 5 / 10)
      = (rat_of_nat c / rat_of_nat (c + k) > 5 / 10)" if "0 < c + k"
    using rounded_gt_half [OF that sum_small c'] by simp
  have goal: "(round_binary64 (rat_of_nat m / rat_of_nat d) \<ge> 1)
      = (rat_of_nat m / rat_of_nat d \<ge> 1)" if "0 < d"
    using rounded_ge_one [of d m] that assms(4) m' by simp
  have low: "(round_binary64 (rat_of_nat m / rat_of_nat d) < round_binary64 (3 / 10))
      = (rat_of_nat m / rat_of_nat d < 3 / 10)" if "0 < d"
    using rounded_lt_three_tenths [OF that assms(4) m'] .
  have "(rat_of_nat 2 \<le> rat_of_nat (c + k)) = (2 \<le> c + k)" by (simp only: of_nat_le_iff)
  then have two: "(2 \<le> rat_of_nat (c + k)) = (2 \<le> c + k)" by (simp del: of_nat_add)
  have l0: "((0 :: rat) < round_binary64 (3 / 10)) = ((0 :: rat) < 3 / 10)"
    unfolding round_binary64_three_tenths by simp
  show ?thesis
  proof (cases "0 < c + k")
    case t: True
    have "0 < rat_of_nat (c + k)" using t by (simp only: of_nat_0_less_iff)
    moreover have "1 \<le> c + k" using t by linarith
    ultimately have tpos: "(0 < rat_of_nat (c + k)) = True" "(1 \<le> c + k) = True"
      by simp_all
    show ?thesis
    proof (cases "0 < d")
      case True
      then have dpos: "(0 < d) = True" by simp
      show ?thesis
        unfolding detectMotivationTrigger_def spec_trigger_def Let_def total half one
        by (simp only: double.case tpos dpos if_True high [OF t] goal [OF True] low [OF True] two)
    next
      case False
      then have dneg: "(0 < d) = False" by simp
      show ?thesis
        unfolding detectMotivationTrigger_def spec_trigger_def Let_def total half one
        by (simp only: double.case tpos dneg if_True if_False high [OF t] l0 two)
    qed
  next
    case f: False
    have "\<not> 0 < rat_of_nat (c + k)" using f by (simp del: of_nat_add)
    moreover have "\<not> 1 \<le> c + k" using f by linarith
    ultimately have tneg: "(0 < rat_of_nat (c + k)) = False" "(1 \<le> c + k) = False"
      by simp_all
    show ?thesis
    proof (cases "0 < d")
      case True
      then have dpos: "(0 < d) = True" by simp
      show ?thesis
        unfolding detectMotivationTrigger_def spec_trigger_def Let_def total half one
        by (simp only: double.case tneg dpos if_True if_False goal [OF True] low [OF True] two)
    next
      case False
      then have dneg: "(0 < d) = False" by simp
      show ?thesis
        unfolding detectMotivationTrigger_def spec_trigger_def Let_def total half one
        by (simp only: double.case tneg dneg if_False l0 two)
    qed
  qed
qed

text \<open>The classification of the specification without division.\<close>

lemma spec_trigger_by_counting:
  "spec_trigger c k m d =
     (if c + k < 2 * c \<and> 2 \<le> c + k then Some high_cancel_rate
      else if 0 < d \<and> d \<le> m then Some goal_achieved
      else if (d = 0 \<or> 10 * m < 3 * d) \<and> 0 < m then Some low_performance
      else None)"
proof -
  have high:
    "((if 1 \<le> c + k then rat_of_nat c / rat_of_nat (c + k) else 0) > 5 / 10 \<and> 2 \<le> c + k)
      = (c + k < 2 * c \<and> 2 \<le> c + k)"
    using cancelRate_gt_half [of "c + k" c] by (cases "0 < c + k") auto
  have goal:
    "((if 0 < d then rat_of_nat m / rat_of_nat d else 0) \<ge> 1) = (0 < d \<and> d \<le> m)"
    using progressRate_ge_one [of d m] by (cases "0 < d") auto
  have low:
    "((if 0 < d then rat_of_nat m / rat_of_nat d else 0) < 3 / 10 \<and> 0 < m)
      = ((d = 0 \<or> 10 * m < 3 * d) \<and> 0 < m)"
    using progressRate_lt_three_tenths [of d m] by (cases "0 < d") auto
  show ?thesis
    unfolding spec_trigger_def Let_def
    by (simp only: high goal low)
qed

text \<open>
  Claim C1, amended. On natural-number inputs below \<open>2 ^ 50\<close>
  \<^verbatim>\<open>detectMotivationTrigger\<close> computes the classification of the specification:
  with total = cancelled + completed, cancelRate = cancelled / total when total is at
  least 1 and 0 otherwise, progressRate = minutesToday / dailyTarget when the target is
  positive and 0 otherwise, the result is high_cancel_rate when cancelRate exceeds 0.5
  and total is at least 2, otherwise goal_achieved when progressRate is at least 1,
  otherwise low_performance when progressRate is below 0.3 and minutesToday is positive,
  otherwise null. The four examples of the specification evaluate as it says. (The
  claim says "for all natural-number inputs"; the rounding of binary64 decides
  otherwise for inputs near \<open>2 ^ 53\<close>.)
\<close>

theorem detectMotivationTrigger_implements_spec:
  "(cancelled < 2 ^ 50 \<and> completed < 2 ^ 50 \<and> minutesToday < 2 ^ 50 \<and> dailyTarget < 2 ^ 50
      \<longrightarrow> detectMotivationTrigger cancelled completed minutesToday dailyTarget
          = spec_trigger cancelled completed minutesToday dailyTarget)
   \<and> detectMotivationTrigger 2 0 10 60 = Some high_cancel_rate
   \<and> detectMotivationTrigger 0 1 60 60 = Some goal_achieved
   \<and> detectMotivationTrigger 0 1 10 60 = Some low_performance
   \<and> detectMotivationTrigger 0 0 0 60 = None"
proof -
  have "detectMotivationTrigger 2 0 10 60 = spec_trigger 2 0 10 60"
    by (rule detectMotivationTrigger_small) simp_all
  then have 1: "detectMotivationTrigger 2 0 10 60 = Some high_cancel_rate"
    by (simp add: spec_trigger_by_counting)
  have "detectMotivationTrigger 0 1 60 60 = spec_trigger 0 1 60 60"
    by (rule detectMotivationTrigger_small) simp_all
  then have 2: "detectMotivationTrigger 0 1 60 60 = Some goal_achieved"
    by (simp add: spec_trigger_by_counting)
  have "detectMotivationTrigger 0 1 10 60 = spec_trigger 0 1 10 60"
    by (rule detectMotivationTrigger_small) simp_all
  then have 3: "detectMotivationTrigger 0 1 10 60 = Some low_performance"
    by (simp add: spec_trigger_by_counting)
  have "detectMotivationTrigger 0 0 0 60 = spec_trigger 0 0 0 60"
    by (rule detectMotivationTrigger_small) simp_all
  then have 4: "detectMotivationTrigger 0 0 0 60 = None"
    by (simp add: spec_trigger_by_counting)
  show ?thesis using 1 2 3 4 by (simp add: detectMotivationTrigger_small)
qed

text \<open>
  The example of the doc comment (line 556), inside the bound: the function returns
  \<^verbatim>\<open>null\<close> there (cancel rate 0.2, progress 0.67), not
  \<^verbatim>\<open>'high_cancel_rate'\<close> as the comment says.
\<close>

theorem detectMotivationTrigger_implements_spec_witness:
  "(2 :: nat) < 2 ^ 50 \<and> (8 :: nat) < 2 ^ 50 \<and> (120 :: nat) < 2 ^ 50 \<and> (180 :: nat) < 2 ^ 50
   \<and> detectMotivationTrigger 2 8 120 180 = spec_trigger 2 8 120 180
   \<and> spec_trigger 2 8 120 180 = None"
  using detectMotivationTrigger_implements_spec [of 2 8 120 180]
  by (simp add: spec_trigger_by_counting)

text \<open>
  Two inputs at which the claim as worded fails. At \<open>(2 ^ 53, 2 ^ 53 - 1, 0, 60)\<close> the
  sum rounds up to \<open>2 ^ 54\<close>, the cancel rate is exactly one half, and the function
  returns \<^verbatim>\<open>null\<close> where the specification's classification (a rate above one
  half) gives high_cancel_rate. At \<open>(0, 1, 2702159776422297, 2 ^ 53 - 1)\<close> the progress
  rate rounds to the double of 0.3, and the function returns \<^verbatim>\<open>null\<close> where
  the classification (a rate below three tenths) gives low_performance.
\<close>

theorem detectMotivationTrigger_large_counterexample:
  "detectMotivationTrigger 9007199254740992 9007199254740991 0 60 = None
   \<and> spec_trigger 9007199254740992 9007199254740991 0 60 = Some high_cancel_rate
   \<and> detectMotivationTrigger 0 1 2702159776422297 9007199254740991 = None
   \<and> spec_trigger 0 1 2702159776422297 9007199254740991 = Some low_performance"
proof -
  have three: "round_binary64 (3 / 10) = 5404319552844595 / 18014398509481984"
    by code_simp
  have one: "round_binary64 1 = 1" by code_simp
  have zero: "round_binary64 0 = 0" by (simp add: round_binary64_def)
  have "round_binary64 18014398509481983 = 18014398509481984" by code_simp
  then have total: "to_double (rat_of_nat 9007199254740992 + rat_of_nat 9007199254740991)
                    = Finite 18014398509481984"
    by (simp add: to_double_def)
  have rate: "round_binary64 (rat_of_nat 9007199254740992 / 18014398509481984) = 1 / 2"
    using round_binary64_half by simp
  have a: "detectMotivationTrigger 9007199254740992 9007199254740991 0 60 = None"
    unfolding detectMotivationTrigger_def Let_def total
    by (simp add: rate round_binary64_half zero one three)
  have total': "to_double (rat_of_nat 0 + rat_of_nat 1) = Finite 1"
    by (simp add: to_double_def one)
  have progress: "round_binary64 (2702159776422297 / 9007199254740991)
                  = 5404319552844595 / 18014398509481984"
    by code_simp
  have b: "detectMotivationTrigger 0 1 2702159776422297 9007199254740991 = None"
    unfolding detectMotivationTrigger_def Let_def total'
    by (simp add: progress round_binary64_half zero one three)
  have c: "spec_trigger 9007199254740992 9007199254740991 0 60 = Some high_cancel_rate"
    by (simp add: spec_trigger_by_counting)
  have d: "spec_trigger 0 1 2702159776422297 9007199254740991 = Some low_performance"
    by (simp add: spec_trigger_by_counting)
  show ?thesis using a b c d by simp
qed

subsection \<open>aiCoachFetch: classification of failures\<close>

lemma aiCoachFetch_resolved:
  assumes "respond w (length (sent w)) = (\<lambda>rq. Resolved r)"
  shows "fst (aiCoachFetch base ep tok opts w) =
           (if ok r then (case json_body r of None \<Rightarrow> Thrown SyntaxError | Some v \<Rightarrow> Returned v)
            else Thrown (http_error r))"
  using assms by (simp add: aiCoachFetch_def fetch_def Let_def split: option.splits)

lemma aiCoachFetch_rejected:
  assumes "respond w (length (sent w)) = (\<lambda>rq. Rejected err)"
  shows "fst (aiCoachFetch base ep tok opts w) =
           Thrown (CoachError
             \<lparr>cls = Cls_AICoachError, name = ''AICoachError'',
              message = ''Network hatas'' @ dotless_i @ '': '' @ err,
              statusCode = 0,
              userMessage =
                JStr (dotted_I @ ''nternet ba'' @ g_breve @ ''lant'' @ dotless_i @ ''n''
                      @ dotless_i @ ''z'' @ dotless_i @ '' kontrol edin.'')\<rparr>)"
  using assms by (simp add: aiCoachFetch_def fetch_def Let_def AICoachError_def)

text \<open>
  The one way a response that is not ok escapes the error classes: the status is 400
  or one the \<^verbatim>\<open>switch\<close> does not list, and \<^verbatim>\<open>errorDetail\<close> has no
  conversion to a string.
\<close>

lemma http_error_CoachError:
  assumes "status r = 401 \<or> status r = 429 \<or> status r = 502 \<or> status r = 503
           \<or> js_String (errorDetail_of r) \<noteq> None"
  shows "\<exists>e. http_error r = CoachError e \<and> statusCode e = status r"
proof (cases "status r = 401 \<or> status r = 429 \<or> status r = 502 \<or> status r = 503")
  case True
  then show ?thesis
    by (auto simp: http_error_def Let_def AICoachError_def AICoachAuthError_def
        AICoachRateLimitError_def AICoachUnavailableError_def)
next
  case False
  with assms obtain detail where "js_String (errorDetail_of r) = Some detail" by auto
  with False show ?thesis
    by (simp add: http_error_def Let_def AICoachError_def)
qed

lemma http_error_TypeError:
  assumes "\<not> (status r = 401 \<or> status r = 429 \<or> status r = 502 \<or> status r = 503
              \<or> js_String (errorDetail_of r) \<noteq> None)"
  shows "http_error r = TypeError"
  using assms by (simp add: http_error_def Let_def AICoachError_def)






text \<open>
  Claim C3. Two responses with status 502 make \<^verbatim>\<open>aiCoachFetch\<close> throw the same
  error, whatever their bodies (and whatever the endpoint, token and options of the two
  calls): its user message is the fixed retry-later text, so nothing of the body reaches
  the user.
\<close>

theorem aiCoachFetch_502_generic:
  assumes "respond w1 (length (sent w1)) = (\<lambda>rq. Resolved r1)"
    and "respond w2 (length (sent w2)) = (\<lambda>rq. Resolved r2)"
    and "status r1 = 502" and "status r2 = 502"
  shows "fst (aiCoachFetch base1 ep1 tok1 opts1 w1) = fst (aiCoachFetch base2 ep2 tok2 opts2 w2)
         \<and> (\<exists>e. fst (aiCoachFetch base1 ep1 tok1 opts1 w1) = Thrown (CoachError e)
                \<and> statusCode e = 502
                \<and> userMessage e =
                     JStr (''AI ko'' @ c_cedilla @ '' ge'' @ c_cedilla @ ''ici bir sorun ya''
                           @ s_cedilla @ dotless_i @ ''yor. L'' @ u_umlaut
                           @ ''tfen tekrar deneyin.''))"
proof -
  have e: "http_error r = CoachError
         \<lparr>cls = Cls_AICoachError, name = ''AICoachError'',
          message = ''Gemini parse hatas'' @ dotless_i, statusCode = 502,
          userMessage =
            JStr (''AI ko'' @ c_cedilla @ '' ge'' @ c_cedilla @ ''ici bir sorun ya'' @ s_cedilla
                  @ dotless_i @ ''yor. L'' @ u_umlaut @ ''tfen tekrar deneyin.'')\<rparr>"
    if "status r = 502" for r
    using that by (simp add: http_error_def Let_def AICoachError_def)
  have nok: "\<not> ok r" if "status r = 502" for r
    using that by (simp add: ok_def)
  have 1: "fst (aiCoachFetch base1 ep1 tok1 opts1 w1) = Thrown (http_error r1)"
    using assms(1,3) by (simp add: aiCoachFetch_resolved nok)
  have 2: "fst (aiCoachFetch base2 ep2 tok2 opts2 w2) = Thrown (http_error r2)"
    using assms(2,4) by (simp add: aiCoachFetch_resolved nok)
  show ?thesis
    unfolding 1 2 e [OF assms(3)] e [OF assms(4)]
    by simp
qed

text \<open>A 502 whose body quotes the model and a 502 with no JSON body: the same error.\<close>

theorem aiCoachFetch_502_generic_witness:
  "fst (aiCoachFetch ''http://localhost:8000'' ''/daily-advice'' ''jwt'' (POST (JObj []))
          \<lparr>respond = (\<lambda>n rq. Resolved \<lparr>status = 502,
              json_body = Some (JObj [(''detail'', JStr ''raw model output: not a JSON object'')])\<rparr>),
           sent = []\<rparr>)
   = fst (aiCoachFetch ''http://localhost:8000'' ''/feedback'' ''jwt'' (POST (JObj []))
          \<lparr>respond = (\<lambda>n rq. Resolved \<lparr>status = 502, json_body = None\<rparr>), sent = []\<rparr>)"
  using aiCoachFetch_502_generic
    [of "\<lparr>respond = (\<lambda>n rq. Resolved \<lparr>status = 502,
              json_body = Some (JObj [(''detail'', JStr ''raw model output: not a JSON object'')])\<rparr>),
           sent = []\<rparr>"
        "\<lparr>status = 502,
              json_body = Some (JObj [(''detail'', JStr ''raw model output: not a JSON object'')])\<rparr>"
        "\<lparr>respond = (\<lambda>n rq. Resolved \<lparr>status = 502, json_body = None\<rparr>), sent = []\<rparr>"
        "\<lparr>status = 502, json_body = None\<rparr>"
        "''http://localhost:8000''" "''/daily-advice''" "''jwt''" "POST (JObj [])"
        "''http://localhost:8000''" "''/feedback''" "''jwt''" "POST (JObj [])"]
  by simp

text \<open>
  Claim C10. When \<^verbatim>\<open>fetch\<close> rejects (no response was received),
  \<^verbatim>\<open>aiCoachFetch\<close> throws a plain \<^verbatim>\<open>AICoachError\<close> with status code 0;
  \<^verbatim>\<open>isAuthError\<close> is false for it, and \<^verbatim>\<open>handleAuthError\<close> of the
  coach screen shows no session-expired alert and returns false.
\<close>

theorem network_failure_is_not_auth_error:
  assumes "respond w (length (sent w)) = (\<lambda>rq. Rejected err)"
  shows "\<exists>e. fst (aiCoachFetch base ep tok opts w) = Thrown (CoachError e)
           \<and> cls e = Cls_AICoachError
           \<and> statusCode e = 0
           \<and> \<not> isAuthError (CoachError e)
           \<and> handleAuthError (CoachError e) = ([], False)"
  using assms
  by (simp add: aiCoachFetch_rejected handleAuthError_def)

theorem network_failure_is_not_auth_error_witness:
  "\<exists>e. fst (getDailyAdvice ''http://localhost:8000'' ''jwt'' None
              \<lparr>respond = (\<lambda>n rq. Rejected ''TypeError: Network request failed''), sent = []\<rparr>)
          = Thrown (CoachError e)
        \<and> statusCode e = 0 \<and> \<not> isAuthError (CoachError e)"
  using network_failure_is_not_auth_error
    [of "\<lparr>respond = (\<lambda>n rq. Rejected ''TypeError: Network request failed''), sent = []\<rparr>"
        "''TypeError: Network request failed''"
        "''http://localhost:8000''" "''/daily-advice''" "''jwt''" "POST (JSON_stringify [])"]
  by (auto simp: getDailyAdvice_def)

subsection \<open>checkAIHealth\<close>

text \<open>
  Claim C9 says that \<^verbatim>\<open>checkAIHealth\<close> returns a health status for every
  outcome of \<^verbatim>\<open>fetch\<close>. It does when \<^verbatim>\<open>fetch\<close> rejects
  (\<open>checkAIHealth_unreachable\<close>). It does not when \<^verbatim>\<open>fetch\<close> resolves with a
  body that is not JSON, such as the HTML page of a gateway: the promise of
  \<^verbatim>\<open>response.json()\<close> is returned without \<^verbatim>\<open>await\<close>, its rejection
  passes the \<^verbatim>\<open>catch\<close>, and the call throws.
\<close>

theorem checkAIHealth_throws_on_non_JSON_body:
  "fst (checkAIHealth ''http://localhost:8000'' ''2026-01-01T00:00:00.000Z''
          \<lparr>respond = (\<lambda>n rq. Resolved \<lparr>status = 502, json_body = None\<rparr>), sent = []\<rparr>)
   = Thrown SyntaxError"
  by (simp add: checkAIHealth_def fetch_def)

lemma checkAIHealth_unreachable:
  assumes "respond w (length (sent w)) = (\<lambda>rq. Rejected err)"
  shows "fst (checkAIHealth base now w) =
           Returned (JObj [(''status'', JStr ''unhealthy''), (''model'', JNull),
                           (''error'', JStr (''Servise ula'' @ s_cedilla @ dotless_i @ ''lam''
                                            @ dotless_i @ ''yor'')),
                           (''checked_at'', JStr now)])"
  using assms by (simp add: checkAIHealth_def fetch_def)

subsection \<open>One request for each invocation\<close>

lemma aiCoachFetch_single_attempt:
  "single_attempt w (aiCoachFetch base ep tok opts w)"
proof -
  define rq where "rq =
    \<lparr>url = base @ ''/api/ai'' @ ep,
     init = opts\<lparr>headers :=
       Some (spread [(''Content-Type'', ''application/json''), (''Authorization'', ''Bearer '' @ tok)]
               (case headers opts of None \<Rightarrow> [] | Some h \<Rightarrow> h))\<rparr>\<rparr>"
  have trace: "snd (aiCoachFetch base ep tok opts w) = w\<lparr>sent := sent w @ [rq]\<rparr>"
    by (simp add: aiCoachFetch_def fetch_def Let_def rq_def
        split: fetch_result.splits option.splits)
  have settled:
    "case respond w (length (sent w)) rq of
       Rejected err \<Rightarrow>
         (\<exists>e. fst (aiCoachFetch base ep tok opts w) = Thrown (CoachError e) \<and> statusCode e = 0)
     | Resolved r \<Rightarrow>
         if ok r then fst (aiCoachFetch base ep tok opts w)
                      = (case json_body r of None \<Rightarrow> Thrown SyntaxError | Some v \<Rightarrow> Returned v)
         else fst (aiCoachFetch base ep tok opts w) = Thrown TypeError
              \<or> (\<exists>e. fst (aiCoachFetch base ep tok opts w) = Thrown (CoachError e)
                    \<and> statusCode e = status r)"
  proof (cases "respond w (length (sent w)) rq")
    case (Rejected err)
    then have "respond w (length (sent w)) rq = Rejected err" .
    then show ?thesis
      unfolding rq_def
      by (simp add: aiCoachFetch_def fetch_def Let_def AICoachError_def)
  next
    case (Resolved r)
    then have r: "respond w (length (sent w)) rq = Resolved r" .
    have "http_error r = TypeError \<or> (\<exists>e. http_error r = CoachError e \<and> statusCode e = status r)"
      using http_error_CoachError [of r] http_error_TypeError [of r] by blast
    with r show ?thesis
      unfolding rq_def
      by (simp add: aiCoachFetch_def fetch_def Let_def split: option.splits)
  qed
  show ?thesis
    unfolding single_attempt_def using trace settled by blast
qed

text \<open>
  Claim C7. Each of \<^verbatim>\<open>getDailyAdvice\<close>, \<^verbatim>\<open>getWeeklyReport\<close>,
  \<^verbatim>\<open>getMotivation\<close>, \<^verbatim>\<open>sendFeedback\<close> and
  \<^verbatim>\<open>getSessionSummary\<close> makes exactly one outbound request, in every state of
  the network; when that request fails (the transport rejects, or the status is outside
  200-299) the error is thrown to the caller with no further request.
\<close>

theorem operations_single_attempt:
  "single_attempt w (getDailyAdvice base tok r1 w)
   \<and> single_attempt w (getWeeklyReport base tok r2 w)
   \<and> single_attempt w (getMotivation base tok r3 w)
   \<and> single_attempt w (sendFeedback base tok r4 w)
   \<and> single_attempt w (getSessionSummary base tok sid w)"
  by (simp add: getDailyAdvice_def getWeeklyReport_def getMotivation_def sendFeedback_def
      getSessionSummary_def aiCoachFetch_single_attempt)

text \<open>
  A network that answers the first request with 503 and would answer a second one with
  200: the weekly report is asked for once and fails.
\<close>

theorem operations_single_attempt_witness:
  "sent (snd (getWeeklyReport ''http://localhost:8000'' ''jwt'' None
          \<lparr>respond = (\<lambda>n rq. if n = 0 then Resolved \<lparr>status = 503, json_body = None\<rparr>
                              else Resolved \<lparr>status = 200, json_body = Some (JObj [])\<rparr>),
           sent = []\<rparr>))
     = [\<lparr>url = ''http://localhost:8000/api/ai/weekly-report'',
         init = \<lparr>http_method = Some ''POST'',
                 headers = Some [(''Content-Type'', ''application/json''),
                                 (''Authorization'', ''Bearer jwt'')],
                 body = Some (JObj [(''days'', JNum ''7'')])\<rparr>\<rparr>]
   \<and> fst (getWeeklyReport ''http://localhost:8000'' ''jwt'' None
          \<lparr>respond = (\<lambda>n rq. if n = 0 then Resolved \<lparr>status = 503, json_body = None\<rparr>
                              else Resolved \<lparr>status = 200, json_body = Some (JObj [])\<rparr>),
           sent = []\<rparr>)
     = Thrown (CoachError AICoachUnavailableError)"
  using operations_single_attempt
    [of "\<lparr>respond = (\<lambda>n rq. if n = 0 then Resolved \<lparr>status = 503, json_body = None\<rparr>
                              else Resolved \<lparr>status = 200, json_body = Some (JObj [])\<rparr>),
           sent = []\<rparr>" "''http://localhost:8000''" "''jwt''" None None]
  by (simp add: getWeeklyReport_def aiCoachFetch_def fetch_def POST_def JSON_stringify_def
      ok_def http_error_def number_value_def)

subsection \<open>sendFeedback: the advice type in the request body\<close>

lemma sendFeedback_body:
  "\<exists>rq. sent (snd (sendFeedback base tok req w)) = sent w @ [rq]
       \<and> body (init rq) = Some (JSON_stringify
            (spread [(''advice_type'', Some (JStr ''daily''))] (FeedbackRequest_object req)))"
  by (simp add: sendFeedback_def aiCoachFetch_def fetch_def POST_def Let_def
      split: fetch_result.splits option.splits)

text \<open>
  Claim C8, amended. The request body of \<^verbatim>\<open>sendFeedback\<close> carries
  \<^verbatim>\<open>advice_type\<close>: the text \<^verbatim>\<open>daily\<close> when the caller's request has no
  such property, the caller's value when the property holds one. (The claim says
  "always"; a property that is present and holds \<^verbatim>\<open>undefined\<close> overwrites the
  default in the spread, and \<^verbatim>\<open>JSON.stringify\<close> then leaves the field out.)
\<close>

theorem sendFeedback_advice_type:
  assumes "advice_type req \<noteq> Undefined"
  shows "\<exists>rq b. sent (snd (sendFeedback base tok req w)) = sent w @ [rq]
           \<and> body (init rq) = Some b
           \<and> field b ''advice_type''
               = Some (JStr (case advice_type req of
                               Present t \<Rightarrow> AdviceType_text t
                             | _ \<Rightarrow> ''daily''))"
proof -
  have "field (JSON_stringify
            (spread [(''advice_type'', Some (JStr ''daily''))] (FeedbackRequest_object req)))
          ''advice_type''
        = Some (JStr (case advice_type req of Present t \<Rightarrow> AdviceType_text t | _ \<Rightarrow> ''daily''))"
    using assms
    by (cases "rejection_reason req"; cases "advice_type req")
       (simp_all add: field_def JSON_stringify_def FeedbackRequest_object_def)
  with sendFeedback_body [of base tok req w] show ?thesis by auto
qed

theorem sendFeedback_advice_type_witness:
  "\<exists>rq b. sent (snd (sendFeedback ''http://localhost:8000'' ''jwt''
              \<lparr>technique = ''Pomodoro 25/5'', liked = False,
               rejection_reason = Present ''25 dakika'', advice_type = Present weekly\<rparr>
              \<lparr>respond = (\<lambda>n rq. Rejected ''offline''), sent = []\<rparr>)) = [rq]
         \<and> body (init rq) = Some b
         \<and> field b ''advice_type'' = Some (JStr ''weekly'')"
  using sendFeedback_advice_type
    [of "\<lparr>technique = ''Pomodoro 25/5'', liked = False,
               rejection_reason = Present ''25 dakika'', advice_type = Present weekly\<rparr>"
        "''http://localhost:8000''" "''jwt''"
        "\<lparr>respond = (\<lambda>n rq. Rejected ''offline''), sent = []\<rparr>"]
  by simp

text \<open>
  The request of a caller that passes \<^verbatim>\<open>advice_type: undefined\<close>: the body that
  is sent has no \<^verbatim>\<open>advice_type\<close> field.
\<close>

theorem sendFeedback_undefined_advice_type_counterexample:
  "sent (snd (sendFeedback ''http://localhost:8000'' ''jwt''
          \<lparr>technique = ''Pomodoro 25/5'', liked = False, rejection_reason = Absent,
           advice_type = Undefined\<rparr>
          \<lparr>respond = (\<lambda>n rq. Rejected ''offline''), sent = []\<rparr>))
     = [\<lparr>url = ''http://localhost:8000/api/ai/feedback'',
         init = \<lparr>http_method = Some ''POST'',
                 headers = Some [(''Content-Type'', ''application/json''),
                                 (''Authorization'', ''Bearer jwt'')],
                 body = Some (JObj [(''technique'', JStr ''Pomodoro 25/5''),
                                    (''liked'', JBool False)])\<rparr>\<rparr>]
   \<and> field (JObj [(''technique'', JStr ''Pomodoro 25/5''), (''liked'', JBool False)])
         ''advice_type'' = None"
  by (simp add: sendFeedback_def aiCoachFetch_def fetch_def POST_def JSON_stringify_def
      FeedbackRequest_object_def field_def)


section \<open>Properties of the backend as the specification describes it\<close>

subsection \<open>The window of the weekly report\<close>

lemma generate_not_InvalidRequest:
  assumes "3 \<le> window" and "window \<le> 30"
  shows "fst (generate env a user window extra excluded validate s) \<noteq> Inl InvalidRequest"
  using assms
  by (auto simp: generate_def assemble_context_def gateway_send_def parse_artifact_def
      split: option.splits provider_reply.splits sum.splits prod.splits)

lemma generate_rejects_window:
  assumes "window < 3 \<or> 30 < window"
  shows "generate env a user window extra excluded validate s = (Inl InvalidRequest, s)"
  using assms by (auto simp: generate_def assemble_context_def)

text \<open>
  Claim C4. For days from 3 to 30 (and for a request without days, which means 7)
  getWeeklyReport never fails with InvalidRequest; for days below 3 or above 30 it fails
  with InvalidRequest and the Gateway has sent nothing to the model.
\<close>

theorem getWeeklyReport_window:
  "(3 \<le> d \<and> d \<le> 30 \<longrightarrow>
      fst (orchestrator_getWeeklyReport env user (Some d) s) \<noteq> Inl InvalidRequest)
   \<and> fst (orchestrator_getWeeklyReport env user None s) \<noteq> Inl InvalidRequest
   \<and> (d < 3 \<or> 30 < d \<longrightarrow>
        fst (orchestrator_getWeeklyReport env user (Some d) s) = Inl InvalidRequest
        \<and> gateway_calls (snd (orchestrator_getWeeklyReport env user (Some d) s)) = gateway_calls s)"
  by (simp add: orchestrator_getWeeklyReport_def generate_not_InvalidRequest
      generate_rejects_window)


theorem getWeeklyReport_window_witness:
  "fst (orchestrator_getWeeklyReport
          \<lparr>statistics_provider = (\<lambda>u d. Some ()),
           generative_model = (\<lambda>p t. QuotaSignal),
           embedded_payload = (\<lambda>raw. None),
           case_folding = map lower_char\<rparr>
          1 (Some 7) \<lparr>gateway_calls = [], feedback_records = []\<rparr>) \<noteq> Inl InvalidRequest
   \<and> orchestrator_getWeeklyReport
          \<lparr>statistics_provider = (\<lambda>u d. Some ()),
           generative_model = (\<lambda>p t. QuotaSignal),
           embedded_payload = (\<lambda>raw. None),
           case_folding = map lower_char\<rparr>
          1 (Some 31) \<lparr>gateway_calls = [], feedback_records = []\<rparr>
       = (Inl InvalidRequest, \<lparr>gateway_calls = [], feedback_records = []\<rparr>)"
proof -
  let ?env = "\<lparr>statistics_provider = (\<lambda>u d. Some ()),
           generative_model = (\<lambda>p t. QuotaSignal),
           embedded_payload = (\<lambda>raw. None),
           case_folding = map lower_char\<rparr>"
  let ?s = "\<lparr>gateway_calls = [], feedback_records = []\<rparr> :: unit backend"
  have "fst (orchestrator_getWeeklyReport ?env 1 (Some 7) ?s) \<noteq> Inl InvalidRequest"
    using getWeeklyReport_window [of 7 ?env 1 ?s] by simp
  moreover have "fst (orchestrator_getWeeklyReport ?env 1 (Some 31) ?s) = Inl InvalidRequest
      \<and> gateway_calls (snd (orchestrator_getWeeklyReport ?env 1 (Some 31) ?s)) = gateway_calls ?s"
    using getWeeklyReport_window [of 31 ?env 1 ?s] by simp
  moreover have "feedback_records (snd (orchestrator_getWeeklyReport ?env 1 (Some 31) ?s)) = []"
    by (simp add: orchestrator_getWeeklyReport_def generate_def assemble_context_def)
  ultimately show ?thesis
    by (cases "orchestrator_getWeeklyReport ?env 1 (Some 31) ?s") simp
qed


subsection \<open>The alternative technique\<close>

lemma validate_alternative_differs:
  assumes "validate_alternative casefold excluded p = Some a"
  shows "\<not> same_ignoring_case casefold (alt_technique a) excluded"
  using assms
  by (auto simp: validate_alternative_def split: option.splits if_splits)

lemma validate_alternative_rejects:
  assumes "text_field p ''technique'' = Some t" and "same_ignoring_case casefold t excluded"
  shows "validate_alternative casefold excluded p = None"
  using assms by (simp add: validate_alternative_def split: option.splits)

lemma generate_validated:
  assumes "fst (generate env a user window extra excluded validate s) = Inr x"
  shows "\<exists>p. validate p = Some x"
  using assms
  by (auto simp: generate_def parse_artifact_def gateway_send_def
      split: sum.splits option.splits prod.splits provider_reply.splits)

lemma getAlternativeTechnique_differs:
  assumes "fst (orchestrator_getAlternativeTechnique env user rejected reason s) = Inr a"
  shows "\<not> same_ignoring_case (case_folding env) (alt_technique a) rejected"
proof -
  from assms obtain p where "validate_alternative (case_folding env) rejected p = Some a"
    unfolding orchestrator_getAlternativeTechnique_def
    using generate_validated [where validate = "validate_alternative (case_folding env) rejected"] by blast
  then show ?thesis by (rule validate_alternative_differs)
qed

lemma record_feedback_alternative:
  assumes "alternative_technique (fst (record_feedback env now msg user tech liked_it reason kind s))
             = Some a"
  shows "\<exists>s1. fst (orchestrator_getAlternativeTechnique env user tech reason s1) = Inr a"
proof (cases liked_it)
  case True
  with assms show ?thesis by (simp add: record_feedback_def Let_def)
next
  case False
  define s1 where "s1 = s\<lparr>feedback_records := feedback_records s @
      [\<lparr>record_id = Suc (length (feedback_records s)), record_user = user,
        record_technique = tech, record_liked = liked_it,
        record_rejection_reason = (if liked_it then None else reason),
        record_advice_type = kind, record_created_at = now\<rparr>]\<rparr>"
  from assms False
  have "fst (orchestrator_getAlternativeTechnique env user tech reason s1) = Inr a"
    unfolding s1_def
    by (cases "orchestrator_getAlternativeTechnique env user tech reason
                 (s\<lparr>feedback_records := feedback_records s @
                    [\<lparr>record_id = Suc (length (feedback_records s)), record_user = user,
                      record_technique = tech, record_liked = liked_it,
                      record_rejection_reason = (if liked_it then None else reason),
                      record_advice_type = kind, record_created_at = now\<rparr>]\<rparr>)")
       (auto simp: record_feedback_def Let_def split: sum.splits)
  then show ?thesis by blast
qed

lemma getAlternativeTechnique_rejects:
  assumes "statistics_provider env user 7 = Some c"
    and "generative_model env (build_prompt AlternativeTechniqueArtifact c reason (Some rejected))
           FastTier = RawText raw"
    and "embedded_payload env raw = Some p"
    and "text_field p ''technique'' = Some t"
    and "same_ignoring_case (case_folding env) t rejected"
  shows "fst (orchestrator_getAlternativeTechnique env user rejected reason s) = Inl SchemaViolation"
  using assms
  by (simp add: orchestrator_getAlternativeTechnique_def generate_def assemble_context_def
      gateway_send_def parse_artifact_def validate_alternative_rejects)

text \<open>
  Claim C5. An AlternativeTechnique that getAlternativeTechnique returns, or that a
  disliked feedback brings back, never names the excluded technique (compared without
  regard to case, under whatever folding of case the backend compares with). A model
  output whose technique is the excluded one is rejected by the Parser with
  SchemaViolation, and getAlternativeTechnique then fails with SchemaViolation.
\<close>

theorem alternative_never_the_excluded_technique:
  "(fst (orchestrator_getAlternativeTechnique env user rejected reason s) = Inr a
      \<longrightarrow> \<not> same_ignoring_case (case_folding env) (alt_technique a) rejected)
   \<and> (alternative_technique (fst (record_feedback env now msg user rejected False reason kind s))
        = Some a'
      \<longrightarrow> \<not> same_ignoring_case (case_folding env) (alt_technique a') rejected)
   \<and> (embedded_payload env raw = Some p \<and> text_field p ''technique'' = Some t
        \<and> same_ignoring_case (case_folding env) t rejected
      \<longrightarrow> parse_artifact env (validate_alternative (case_folding env) rejected) raw = Inl SchemaViolation)
   \<and> (statistics_provider env user 7 = Some c
        \<and> generative_model env
             (build_prompt AlternativeTechniqueArtifact c reason (Some rejected)) FastTier
           = RawText raw
        \<and> embedded_payload env raw = Some p \<and> text_field p ''technique'' = Some t
        \<and> same_ignoring_case (case_folding env) t rejected
      \<longrightarrow> fst (orchestrator_getAlternativeTechnique env user rejected reason s)
            = Inl SchemaViolation)"
proof (intro conjI impI)
  assume "fst (orchestrator_getAlternativeTechnique env user rejected reason s) = Inr a"
  then show "\<not> same_ignoring_case (case_folding env) (alt_technique a) rejected"
    by (rule getAlternativeTechnique_differs)
next
  assume "alternative_technique (fst (record_feedback env now msg user rejected False reason kind s))
            = Some a'"
  then obtain s1 where
    "fst (orchestrator_getAlternativeTechnique env user rejected reason s1) = Inr a'"
    using record_feedback_alternative by blast
  then show "\<not> same_ignoring_case (case_folding env) (alt_technique a') rejected"
    by (rule getAlternativeTechnique_differs)
next
  assume "embedded_payload env raw = Some p \<and> text_field p ''technique'' = Some t
          \<and> same_ignoring_case (case_folding env) t rejected"
  then show "parse_artifact env (validate_alternative (case_folding env) rejected) raw = Inl SchemaViolation"
    by (simp add: parse_artifact_def validate_alternative_rejects)
next
  assume "statistics_provider env user 7 = Some c
          \<and> generative_model env
               (build_prompt AlternativeTechniqueArtifact c reason (Some rejected)) FastTier
             = RawText raw
          \<and> embedded_payload env raw = Some p \<and> text_field p ''technique'' = Some t
          \<and> same_ignoring_case (case_folding env) t rejected"
  then show "fst (orchestrator_getAlternativeTechnique env user rejected reason s)
               = Inl SchemaViolation"
    by (simp add: getAlternativeTechnique_rejects)
qed

text \<open>
  A model that proposes the Feynman technique when Pomodoro 25/5 was rejected, and one
  that proposes the rejected technique in capitals.
\<close>

theorem alternative_never_the_excluded_technique_witness:
  "fst (orchestrator_getAlternativeTechnique
          \<lparr>statistics_provider = (\<lambda>u d. Some ()),
           generative_model = (\<lambda>p t. RawText ''Here is the JSON you asked for''),
           embedded_payload = (\<lambda>raw. Some (JObj
             [(''technique'', JStr ''Feynman''), (''why_different'', JStr ''active recall''),
              (''why_suits_you'', JStr ''short sessions''), (''steps'', JArr [JStr ''explain it'']),
              (''try_suggestion'', JStr ''ten minutes today'')])),
           case_folding = map lower_char\<rparr>
          1 ''Pomodoro 25/5'' None \<lparr>gateway_calls = [], feedback_records = []\<rparr>)
     = Inr \<lparr>alt_technique = ''Feynman'', why_different = ''active recall'',
            why_suits_you = ''short sessions'', steps = [''explain it''],
            try_suggestion = ''ten minutes today''\<rparr>
   \<and> \<not> same_ignoring_case (map lower_char) ''Feynman'' ''Pomodoro 25/5''
   \<and> same_ignoring_case (map lower_char) ''POMODORO 25/5'' ''Pomodoro 25/5''
   \<and> fst (orchestrator_getAlternativeTechnique
          \<lparr>statistics_provider = (\<lambda>u d. Some ()),
           generative_model = (\<lambda>p t. RawText ''Here is the JSON you asked for''),
           embedded_payload = (\<lambda>raw. Some (JObj
             [(''technique'', JStr ''POMODORO 25/5''), (''why_different'', JStr ''capitals''),
              (''why_suits_you'', JStr ''short sessions''), (''steps'', JArr [JStr ''start'']),
              (''try_suggestion'', JStr ''ten minutes today'')])),
           case_folding = map lower_char\<rparr>
          1 ''Pomodoro 25/5'' None \<lparr>gateway_calls = [], feedback_records = []\<rparr>)
     = Inl SchemaViolation"
proof -
  let ?env = "\<lparr>statistics_provider = (\<lambda>u d. Some ()),
           generative_model = (\<lambda>p t. RawText ''Here is the JSON you asked for''),
           embedded_payload = (\<lambda>raw. Some (JObj
             [(''technique'', JStr ''Feynman''), (''why_different'', JStr ''active recall''),
              (''why_suits_you'', JStr ''short sessions''), (''steps'', JArr [JStr ''explain it'']),
              (''try_suggestion'', JStr ''ten minutes today'')])),
           case_folding = map lower_char\<rparr>"
  let ?bad = "JObj
             [(''technique'', JStr ''POMODORO 25/5''), (''why_different'', JStr ''capitals''),
              (''why_suits_you'', JStr ''short sessions''), (''steps'', JArr [JStr ''start'']),
              (''try_suggestion'', JStr ''ten minutes today'')]"
  let ?env' = "\<lparr>statistics_provider = (\<lambda>u d. Some ()),
         generative_model = (\<lambda>p t. RawText ''Here is the JSON you asked for''),
         embedded_payload = (\<lambda>raw. Some ?bad),
         case_folding = map lower_char\<rparr>"
  let ?a = "\<lparr>alt_technique = ''Feynman'', why_different = ''active recall'',
            why_suits_you = ''short sessions'', steps = [''explain it''],
            try_suggestion = ''ten minutes today''\<rparr>"
  let ?s = "\<lparr>gateway_calls = [], feedback_records = []\<rparr> :: unit backend"
  have run: "fst (orchestrator_getAlternativeTechnique ?env 1 ''Pomodoro 25/5'' None ?s) = Inr ?a"
    by (simp add: orchestrator_getAlternativeTechnique_def generate_def assemble_context_def
        gateway_send_def build_prompt_def parse_artifact_def validate_alternative_def
        text_field_def text_list_field_def field_def same_ignoring_case_def lower_char_def)
  have same: "same_ignoring_case (map lower_char) ''POMODORO 25/5'' ''Pomodoro 25/5''"
    by (simp add: same_ignoring_case_def lower_char_def)
  have pre: "statistics_provider ?env' 1 7 = Some ()
             \<and> generative_model ?env'
                  (build_prompt AlternativeTechniqueArtifact () None (Some ''Pomodoro 25/5''))
                  FastTier = RawText ''Here is the JSON you asked for''
             \<and> embedded_payload ?env' ''Here is the JSON you asked for'' = Some ?bad
             \<and> text_field ?bad ''technique'' = Some ''POMODORO 25/5''
             \<and> same_ignoring_case (case_folding ?env') ''POMODORO 25/5'' ''Pomodoro 25/5''"
    using same by (simp add: text_field_def field_def)
  from run alternative_never_the_excluded_technique
    [where env = ?env and user = 1 and rejected = "''Pomodoro 25/5''" and reason = None
       and s = ?s and a = ?a]
  have "\<not> same_ignoring_case (case_folding ?env) (alt_technique ?a) ''Pomodoro 25/5''"
    by blast
  moreover from pre alternative_never_the_excluded_technique
    [where env = ?env' and user = 1 and rejected = "''Pomodoro 25/5''" and reason = None
       and s = ?s and c = "()" and raw = "''Here is the JSON you asked for''" and p = ?bad
       and t = "''POMODORO 25/5''"]
  have "fst (orchestrator_getAlternativeTechnique ?env' 1 ''Pomodoro 25/5'' None ?s)
          = Inl SchemaViolation" by blast
  ultimately show ?thesis using run same by simp
qed

subsection \<open>Failure isolation in the Feedback Recorder\<close>

lemma generate_result_independent_of_state:
  "fst (generate env a user window extra excluded validate s)
     = fst (generate env a user window extra excluded validate s')"
  by (simp add: generate_def gateway_send_def
      split: sum.splits option.splits prod.splits provider_reply.splits)

lemma generate_keeps_feedback_records:
  "feedback_records (snd (generate env a user window extra excluded validate s))
     = feedback_records s"
  by (simp add: generate_def gateway_send_def
      split: sum.splits option.splits prod.splits provider_reply.splits)

text \<open>
  Claim C6. When a feedback with liked = false is recorded and the generation of the
  alternative fails, the operation still succeeds: success is true, the alternative is
  empty, and the feedback record has been persisted under the identity the response
  names.
\<close>

theorem feedback_survives_failed_alternative:
  assumes "fst (orchestrator_getAlternativeTechnique env user tech reason s) = Inl f"
  shows "success (fst (record_feedback env now msg user tech False reason kind s))
         \<and> alternative_technique (fst (record_feedback env now msg user tech False reason kind s))
             = None
         \<and> feedback_records (snd (record_feedback env now msg user tech False reason kind s))
             = feedback_records s @
               [\<lparr>record_id = feedback_id (fst (record_feedback env now msg user tech False reason kind s)),
                 record_user = user, record_technique = tech, record_liked = False,
                 record_rejection_reason = reason, record_advice_type = kind,
                 record_created_at = now\<rparr>]"
proof -
  define s1 where "s1 = s\<lparr>feedback_records := feedback_records s @
      [\<lparr>record_id = Suc (length (feedback_records s)), record_user = user,
        record_technique = tech, record_liked = False, record_rejection_reason = reason,
        record_advice_type = kind, record_created_at = now\<rparr>]\<rparr>"
  obtain r s2 where run: "orchestrator_getAlternativeTechnique env user tech reason s1 = (r, s2)"
    by (cases "orchestrator_getAlternativeTechnique env user tech reason s1")
  have "fst (orchestrator_getAlternativeTechnique env user tech reason s1) = Inl f"
    using assms
    unfolding orchestrator_getAlternativeTechnique_def
    by (simp add: generate_result_independent_of_state [of _ _ _ _ _ _ _ s1 s])
  with run have r: "r = Inl f" by simp
  have "feedback_records (snd (orchestrator_getAlternativeTechnique env user tech reason s1))
          = feedback_records s1"
    unfolding orchestrator_getAlternativeTechnique_def
    by (rule generate_keeps_feedback_records)
  with run have kept: "feedback_records s2 = feedback_records s1" by simp
  have "record_feedback env now msg user tech False reason kind s
          = (\<lparr>success = True, confirmation = msg,
               feedback_id = Suc (length (feedback_records s)),
               alternative_technique = None\<rparr>, s2)"
    using run r by (simp add: record_feedback_def Let_def s1_def)
  then show ?thesis using kept by (simp add: s1_def)
qed

theorem feedback_survives_failed_alternative_witness:
  "fst (orchestrator_getAlternativeTechnique
          \<lparr>statistics_provider = (\<lambda>u d. Some ()),
           generative_model = (\<lambda>p t. TransportFailure),
           embedded_payload = (\<lambda>raw. None),
           case_folding = map lower_char\<rparr>
          1 ''Pomodoro 25/5'' (Some ''too long'') \<lparr>gateway_calls = [], feedback_records = []\<rparr>)
     = Inl Unavailable
   \<and> fst (record_feedback
          \<lparr>statistics_provider = (\<lambda>u d. Some ()),
           generative_model = (\<lambda>p t. TransportFailure),
           embedded_payload = (\<lambda>raw. None),
           case_folding = map lower_char\<rparr>
          ''2026-01-01T10:00:00Z'' ''Thanks'' 1 ''Pomodoro 25/5'' False (Some ''too long'') daily
          \<lparr>gateway_calls = [], feedback_records = []\<rparr>)
     = \<lparr>success = True, confirmation = ''Thanks'', feedback_id = 1,
        alternative_technique = None\<rparr>
   \<and> feedback_records (snd (record_feedback
          \<lparr>statistics_provider = (\<lambda>u d. Some ()),
           generative_model = (\<lambda>p t. TransportFailure),
           embedded_payload = (\<lambda>raw. None),
           case_folding = map lower_char\<rparr>
          ''2026-01-01T10:00:00Z'' ''Thanks'' 1 ''Pomodoro 25/5'' False (Some ''too long'') daily
          \<lparr>gateway_calls = [], feedback_records = []\<rparr>))
     = [\<lparr>record_id = 1, record_user = 1, record_technique = ''Pomodoro 25/5'',
         record_liked = False, record_rejection_reason = Some ''too long'',
         record_advice_type = daily, record_created_at = ''2026-01-01T10:00:00Z''\<rparr>]"
proof -
  let ?env = "\<lparr>statistics_provider = (\<lambda>u d. Some ()),
           generative_model = (\<lambda>p t. TransportFailure),
           embedded_payload = (\<lambda>raw. None),
           case_folding = map lower_char\<rparr>"
  let ?s = "\<lparr>gateway_calls = [], feedback_records = []\<rparr> :: unit backend"
  have fails: "fst (orchestrator_getAlternativeTechnique ?env 1 ''Pomodoro 25/5''
                 (Some ''too long'') ?s) = Inl Unavailable"
    by (simp add: orchestrator_getAlternativeTechnique_def generate_def assemble_context_def
        gateway_send_def)
  have resp: "confirmation (fst (record_feedback ?env ''2026-01-01T10:00:00Z'' ''Thanks'' 1
                 ''Pomodoro 25/5'' False (Some ''too long'') daily ?s)) = ''Thanks''
        \<and> feedback_id (fst (record_feedback ?env ''2026-01-01T10:00:00Z'' ''Thanks'' 1
                 ''Pomodoro 25/5'' False (Some ''too long'') daily ?s)) = 1"
    by (simp add: record_feedback_def Let_def split: prod.splits sum.splits)
  from feedback_survives_failed_alternative
    [OF fails, of "''2026-01-01T10:00:00Z''" "''Thanks''" daily] resp fails
  show ?thesis
    by (cases "fst (record_feedback ?env ''2026-01-01T10:00:00Z'' ''Thanks'' 1
                 ''Pomodoro 25/5'' False (Some ''too long'') daily ?s)") simp
qed

end
